theory Spec2Isabelle
  imports Complex_Main
begin

section \<open>Voice login system: feature encodings and the similarity engine\<close>

text \<open>
  The development embeds the numerical core of the voice login system (the Python files
  \<^verbatim>\<open>database.py\<close>, \<^verbatim>\<open>preprocessing.py\<close>, \<^verbatim>\<open>app.py\<close>, \<^verbatim>\<open>cli_app.py\<close> and
  \<^verbatim>\<open>web_app.py\<close>).

  Modelling conventions.
  \<^item> A numpy array is a record of its shape and its elements in row-major order.
  \<^item> Floating-point numbers are modelled by the reals: arithmetic is exact, there is no
    rounding, overflow, infinity or NaN. The constants \<^verbatim>\<open>0.8\<close>, \<^verbatim>\<open>0.75\<close>, \<^verbatim>\<open>0.65\<close>,
    \<^verbatim>\<open>0.5\<close> and \<^verbatim>\<open>0.01\<close> are the corresponding rationals.
  \<^item> Printing, the widgets of the desktop window, temporary files and the HTTP layer have
    no effect on the values computed and are left out. Calls into librosa are
    parameters of the model. Exceptions of collaborators (sound device, file system,
    SQLite, Keras) are not modelled.
  \<^item> A name a function reads from its module is looked up in the list of names the
    module binds; a name that is not bound raises \<^verbatim>\<open>NameError\<close>, as in Python.
\<close>

subsection \<open>numpy arrays\<close>

record ndarray =
  shape :: "nat list"
  data :: "real list"

text \<open>An array holds as many elements as its shape says.\<close>

definition wf_ndarray :: "ndarray \<Rightarrow> bool" where
  "wf_ndarray a = (length (data a) = prod_list (shape a))"

text \<open>\<^verbatim>\<open>a.flatten()\<close>: the same elements in one dimension.\<close>

definition flatten :: "ndarray \<Rightarrow> ndarray" where
  "flatten a = \<lparr>shape = [prod_list (shape a)], data = data a\<rparr>"

text \<open>\<^verbatim>\<open>np.linalg.norm(a)\<close> with the default order: the root of the sum of squares.\<close>

definition linalg_norm :: "ndarray \<Rightarrow> real" where
  "linalg_norm a = sqrt (sum_list (map (\<lambda>x. x * x) (data a)))"

text \<open>\<^verbatim>\<open>np.dot(a, b)\<close> on two one-dimensional arrays of the same shape.\<close>

definition dot :: "ndarray \<Rightarrow> ndarray \<Rightarrow> real" where
  "dot a b = sum_list (map (\<lambda>(x, y). x * y) (zip (data a) (data b)))"

subsection \<open>\<^verbatim>\<open>VoiceDatabase.calculate_cosine_similarity\<close>\<close>

text \<open>
  \<^verbatim>\<open>
  if len(embedding1.shape) > 1: embedding1 = embedding1.flatten()
  if len(embedding2.shape) > 1: embedding2 = embedding2.flatten()
  if embedding1.shape != embedding2.shape: return 0.0
  norm1 = np.linalg.norm(embedding1); norm2 = np.linalg.norm(embedding2)
  if norm1 == 0 or norm2 == 0: return 0.0
  dot_product = np.dot(embedding1, embedding2)
  similarity = dot_product / (norm1 * norm2)
  return similarity
  \<close>
  The surrounding \<^verbatim>\<open>try\<close> returns 0.0 on any exception; none of the steps raises on
  arrays of numbers.
\<close>

definition calculate_cosine_similarity :: "ndarray \<Rightarrow> ndarray \<Rightarrow> real" where
  "calculate_cosine_similarity embedding1 embedding2 =
     (let e1 = (if length (shape embedding1) > 1 then flatten embedding1 else embedding1);
          e2 = (if length (shape embedding2) > 1 then flatten embedding2 else embedding2)
      in if shape e1 \<noteq> shape e2 then 0
         else
           let norm1 = linalg_norm e1; norm2 = linalg_norm e2
           in if norm1 = 0 \<or> norm2 = 0 then 0
              else
                let dot_product = dot e1 e2;
                    similarity = dot_product / (norm1 * norm2)
                in similarity)"

text \<open>The array as the comparison sees it, after the optional flattening.\<close>

definition flat :: "ndarray \<Rightarrow> ndarray" where
  "flat a = (if length (shape a) > 1 then flatten a else a)"

subsection \<open>The same function with the floating-point division made explicit\<close>

text \<open>
  What a numpy division returns: a number, or one of the special values. Dividing by
  zero does not raise on numpy scalars; it gives NaN for 0/0 and an infinity otherwise.
\<close>

datatype np_float = Num real | NaN | PosInf | NegInf

definition np_divide :: "real \<Rightarrow> real \<Rightarrow> np_float" where
  "np_divide x y =
     (if y \<noteq> 0 then Num (x / y)
      else if x = 0 then NaN
      else if x > 0 then PosInf
      else NegInf)"

text \<open>
  \<^verbatim>\<open>calculate_cosine_similarity\<close> once more, statement by statement, with
  \<^verbatim>\<open>dot_product / (norm1 * norm2)\<close> as the numpy division and \<^verbatim>\<open>return 0.0\<close> as the
  number 0. Here the two early returns are the only thing between a degenerate input and
  the division.
\<close>

definition calculate_cosine_similarity_np :: "ndarray \<Rightarrow> ndarray \<Rightarrow> np_float" where
  "calculate_cosine_similarity_np embedding1 embedding2 =
     (let e1 = (if length (shape embedding1) > 1 then flatten embedding1 else embedding1);
          e2 = (if length (shape embedding2) > 1 then flatten embedding2 else embedding2)
      in if shape e1 \<noteq> shape e2 then Num 0
         else
           let norm1 = linalg_norm e1; norm2 = linalg_norm e2
           in if norm1 = 0 \<or> norm2 = 0 then Num 0
              else
                let dot_product = dot e1 e2;
                    similarity = np_divide dot_product (norm1 * norm2)
                in similarity)"


subsection \<open>The database (\<^verbatim>\<open>database.py\<close>)\<close>

text \<open>
  The three SQLite tables, each a list of rows in insertion order. Timestamps are
  natural numbers. The column \<^verbatim>\<open>is_active\<close> defaults to 1 and no statement of the
  program ever changes it; the queries test it all the same, and so does the model.
\<close>

record student_row =
  s_student_id :: string
  s_name :: string
  s_email :: "string option"
  s_registration_date :: nat
  s_is_active :: bool

record embedding_row =
  ve_student_id :: string
  ve_embedding_data :: ndarray
  ve_audio_hash :: "string option"
  ve_confidence_score :: "real option"
  ve_registration_date :: nat

record login_attempt =
  la_student_id :: string
  la_success :: bool
  la_confidence_score :: real
  la_ip_address :: "string option"

record VoiceDatabase =
  students :: "student_row list"
  voice_embeddings :: "embedding_row list"
  login_attempts :: "login_attempt list"

text \<open>The dictionaries \<^verbatim>\<open>get_student_embeddings\<close> returns.\<close>

record stored_embedding =
  embedding :: ndarray
  confidence_score :: "real option"
  registration_date :: nat

text \<open>
  \<^verbatim>\<open>SELECT embedding_data, confidence_score, registration_date FROM voice_embeddings
  WHERE student_id = ? ORDER BY registration_date DESC\<close>.
  SQL leaves the order of rows with equal dates open; the model takes the reverse of a
  stable ascending sort.
\<close>

definition get_student_embeddings :: "VoiceDatabase \<Rightarrow> string \<Rightarrow> stored_embedding list" where
  "get_student_embeddings db student_id =
     (let results = rev (sort_key ve_registration_date
                      (filter (\<lambda>row. ve_student_id row = student_id) (voice_embeddings db)))
      in map (\<lambda>row. \<lparr>embedding = ve_embedding_data row,
                      confidence_score = ve_confidence_score row,
                      registration_date = ve_registration_date row\<rparr>) results)"

text \<open>
  \<^verbatim>\<open>SELECT student_id, name, email, registration_date, is_active FROM students
  ORDER BY registration_date DESC\<close>.
\<close>

definition list_all_students :: "VoiceDatabase \<Rightarrow> student_row list" where
  "list_all_students db = rev (sort_key s_registration_date (students db))"

text \<open>
  \<^verbatim>\<open>INSERT INTO login_attempts (student_id, success, confidence_score, ip_address)\<close>:
  one new row at the end of the table.
\<close>

definition log_login_attempt ::
  "VoiceDatabase \<Rightarrow> string \<Rightarrow> bool \<Rightarrow> real \<Rightarrow> string option \<Rightarrow> VoiceDatabase" where
  "log_login_attempt db student_id success confidence ip_address =
     db\<lparr>login_attempts := login_attempts db @
          [\<lparr>la_student_id = student_id, la_success = success,
            la_confidence_score = confidence, la_ip_address = ip_address\<rparr>]\<rparr>"

text \<open>Python's \<^verbatim>\<open>max\<close> of a list; it raises \<^verbatim>\<open>ValueError\<close> on the empty list.\<close>

fun py_max :: "real list \<Rightarrow> real option" where
  "py_max [] = None"
| "py_max (x # xs) = Some (fold max xs x)"

text \<open>
  \<^verbatim>\<open>
  embeddings = self.get_student_embeddings(student_id)
  if not embeddings: return False, 0.0
  similarities = []
  for i, emb_data in enumerate(embeddings):
      stored_embedding = emb_data['embedding']
      similarity = self.calculate_cosine_similarity(test_embedding, stored_embedding)
      similarities.append(similarity)
  max_similarity = max(similarities) if similarities else 0.0
  is_match = max_similarity >= similarity_threshold
  return is_match, max_similarity
  \<close>
\<close>

definition verify_student_voice ::
  "VoiceDatabase \<Rightarrow> string \<Rightarrow> ndarray \<Rightarrow> real \<Rightarrow> bool \<times> real" where
  "verify_student_voice db student_id test_embedding similarity_threshold =
     (let embeddings = get_student_embeddings db student_id
      in if embeddings = [] then (False, 0)
         else
           let similarities =
                 map (\<lambda>emb_data. calculate_cosine_similarity test_embedding (embedding emb_data))
                   embeddings;
               max_similarity = (case py_max similarities of Some m \<Rightarrow> m | None \<Rightarrow> 0);
               is_match = (max_similarity \<ge> similarity_threshold)
           in (is_match, max_similarity))"

text \<open>The default of the parameter \<^verbatim>\<open>similarity_threshold\<close>.\<close>

definition default_similarity_threshold :: real where
  "default_similarity_threshold = 8 / 10"

subsection \<open>Python exceptions and module namespaces\<close>

datatype py_error = TypeError | ValueError | NameError

text \<open>
  The names each front end binds at module level: its imports and its own classes,
  functions and variables. \<^verbatim>\<open>web_app.py\<close> has \<^verbatim>\<open>import time\<close>; \<^verbatim>\<open>app.py\<close> and
  \<^verbatim>\<open>cli_app.py\<close> do not, and import nothing with a star.
\<close>

definition app_globals :: "string list" where
  "app_globals =
     [''os'', ''sys'', ''np'', ''tk'', ''ttk'', ''messagebox'', ''filedialog'', ''threading'',
      ''datetime'', ''AudioPreprocessor'', ''VoiceRecognitionCNN'', ''VoiceDatabase'',
      ''AudioRecorder'', ''VoiceRecognitionApp'', ''app'']"

definition cli_app_globals :: "string list" where
  "cli_app_globals =
     [''os'', ''sys'', ''argparse'', ''np'', ''datetime'', ''AudioPreprocessor'',
      ''VoiceRecognitionCNN'', ''VoiceDatabase'', ''AudioRecorder'', ''VoiceRecognitionCLI'',
      ''main'']"

definition web_app_globals :: "string list" where
  "web_app_globals =
     [''Flask'', ''render_template'', ''request'', ''jsonify'', ''os'', ''base64'', ''np'',
      ''sf'', ''librosa'', ''time'', ''signal'', ''zoom'', ''AudioPreprocessor'',
      ''VoiceDatabase'', ''app'', ''preprocessor'', ''db'', ''upload_folder'', ''index'',
      ''register_page'', ''login_page'', ''dashboard'', ''convert_audio_to_wav'',
      ''api_register_student'', ''api_voice_login'', ''api_delete_student'',
      ''api_get_students'']"

text \<open>
  Reading a global name. (\<^verbatim>\<open>time\<close>, the only name looked up here, is not a builtin.)
\<close>

definition global_name :: "string list \<Rightarrow> string \<Rightarrow> py_error + unit" where
  "global_name globals name = (if name \<in> set globals then Inr () else Inl NameError)"

subsection \<open>Open-set identification (\<^verbatim>\<open>app.py\<close>, \<^verbatim>\<open>cli_app.py\<close>, \<^verbatim>\<open>web_app.py\<close>)\<close>

text \<open>
  The loop the three front ends share, started with
  \<^verbatim>\<open>best_match = None; best_similarity = 0.0; best_student = None\<close>:
  \<^verbatim>\<open>
  for student in all_students:
      if not student['is_active']: continue
      student_id = student['student_id']
      is_match, similarity = self.db.verify_student_voice(student_id, features)
      if similarity > best_similarity:
          best_similarity = similarity
          best_student = student
          best_match = is_match
  \<close>
  The state is \<open>(best_match, best_similarity, best_student)\<close>. (The web endpoint has no
  \<^verbatim>\<open>best_match\<close>; nothing reads it in the other two.)
\<close>

type_synonym best = "bool option \<times> real \<times> student_row option"

fun identify_loop :: "VoiceDatabase \<Rightarrow> ndarray \<Rightarrow> student_row list \<Rightarrow> best \<Rightarrow> best" where
  "identify_loop db features [] st = st"
| "identify_loop db features (student # rest) (best_match, best_similarity, best_student) =
     (if \<not> s_is_active student
      then identify_loop db features rest (best_match, best_similarity, best_student)
      else
        let (is_match, similarity) =
              verify_student_voice db (s_student_id student) features default_similarity_threshold
        in if similarity > best_similarity
           then identify_loop db features rest (Some is_match, similarity, Some student)
           else identify_loop db features rest (best_match, best_similarity, best_student))"

text \<open>
  What an attempt ends in: one constructor for each exit of the source, carrying what
  the exit reports.
\<close>

datatype login_outcome =
  FailedToProcessAudio
| NoRegisteredStudents
| WelcomeBack student_row real
| PossibleMatchLowConfidence student_row real
| VoiceNotRecognized real
| AuthenticationError py_error

text \<open>
  \<^verbatim>\<open>app.py\<close>, \<^verbatim>\<open>identify_and_login\<close>. The whole body is inside \<^verbatim>\<open>try\<close>, and its
  second statement reads the global \<^verbatim>\<open>time\<close>:
  \<^verbatim>\<open>
  try:
      self.login_status.config(...)
      temp_audio_file = f"temp_login_{int(time.time())}.wav"
      self.recorder.save_audio(audio_data, temp_audio_file)
      features = self.preprocessor.preprocess_audio(temp_audio_file, feature_type='spectrogram')
      if features is None:
          self.show_login_result(False, "Failed to process audio", 0.0); return
      all_students = self.db.list_all_students()
      if not all_students:
          self.show_login_result(False, "No registered students found", 0.0); return
      ... the loop ...
      confidence_threshold = 0.75
      if best_student and best_similarity >= confidence_threshold:
          self.show_login_result(True, f"Welcome back, {best_student['name']}!", best_similarity)
          self.db.log_login_attempt(best_student['student_id'], True, best_similarity)
      elif best_student and best_similarity >= 0.5:
          self.show_login_result(False, f"Possible match: ... (Low confidence)", best_similarity)
          self.db.log_login_attempt(best_student['student_id'], False, best_similarity)
      else:
          self.show_login_result(False, "Voice not recognized - Please register first", best_similarity)
          self.db.log_login_attempt("UNKNOWN", False, best_similarity)
  except Exception as e:
      self.show_login_result(False, f"Authentication error: {str(e)}", 0.0)
  \<close>
  The argument \<open>features_opt\<close> is what \<^verbatim>\<open>preprocess_audio\<close> would return for the
  recording (\<open>None\<close> for Python's \<^verbatim>\<open>None\<close>). When a classifier is loaded its
  prediction is computed and then dropped (the branch body is \<^verbatim>\<open>pass\<close>), so the
  classifier does not appear.
\<close>

definition identify_and_login ::
  "VoiceDatabase \<Rightarrow> ndarray option \<Rightarrow> login_outcome \<times> VoiceDatabase" where
  "identify_and_login db features_opt =
     (case global_name app_globals ''time'' of
        Inl e \<Rightarrow> (AuthenticationError e, db)
      | Inr u \<Rightarrow>
         (case features_opt of
            None \<Rightarrow> (FailedToProcessAudio, db)
          | Some features \<Rightarrow>
              let all_students = list_all_students db
              in if all_students = [] then (NoRegisteredStudents, db)
                 else
                   let (best_match, best_similarity, best_student) =
                         identify_loop db features all_students (None, 0, None);
                       confidence_threshold = 75 / 100
                   in (case best_student of
                         Some student \<Rightarrow>
                           if best_similarity \<ge> confidence_threshold
                           then (WelcomeBack student best_similarity,
                                 log_login_attempt db (s_student_id student) True
                                   best_similarity None)
                           else if best_similarity \<ge> 5 / 10
                           then (PossibleMatchLowConfidence student best_similarity,
                                 log_login_attempt db (s_student_id student) False
                                   best_similarity None)
                           else (VoiceNotRecognized best_similarity,
                                 log_login_attempt db ''UNKNOWN'' False best_similarity None)
                       | None \<Rightarrow>
                           (VoiceNotRecognized best_similarity,
                            log_login_attempt db ''UNKNOWN'' False best_similarity None))))"

text \<open>
  \<^verbatim>\<open>cli_app.py\<close>, \<^verbatim>\<open>_voice_only_login\<close>: the same steps, printed instead of shown, and
  the same read of \<^verbatim>\<open>time\<close> inside the \<^verbatim>\<open>try\<close>:
  \<^verbatim>\<open>
  try:
      audio_data = self.recorder.record_audio(duration=5)
      temp_file = f"temp_voice_login_{int(time.time())}.wav"
      ...
  except Exception as e:
      print(f"Voice authentication failed: {e}")
      return False
  \<close>
\<close>

definition voice_only_login ::
  "VoiceDatabase \<Rightarrow> ndarray option \<Rightarrow> login_outcome \<times> VoiceDatabase" where
  "voice_only_login db features_opt =
     (case global_name cli_app_globals ''time'' of
        Inl e \<Rightarrow> (AuthenticationError e, db)
      | Inr u \<Rightarrow>
         (case features_opt of
            None \<Rightarrow> (FailedToProcessAudio, db)
          | Some features \<Rightarrow>
              let all_students = list_all_students db
              in if all_students = [] then (NoRegisteredStudents, db)
                 else
                   let (best_match, best_similarity, best_student) =
                         identify_loop db features all_students (None, 0, None);
                       confidence_threshold = 75 / 100
                   in (case best_student of
                         Some student \<Rightarrow>
                           if best_similarity \<ge> confidence_threshold
                           then (WelcomeBack student best_similarity,
                                 log_login_attempt db (s_student_id student) True
                                   best_similarity None)
                           else if best_similarity \<ge> 5 / 10
                           then (PossibleMatchLowConfidence student best_similarity,
                                 log_login_attempt db (s_student_id student) False
                                   best_similarity None)
                           else (VoiceNotRecognized best_similarity,
                                 log_login_attempt db ''UNKNOWN'' False best_similarity None)
                       | None \<Rightarrow>
                           (VoiceNotRecognized best_similarity,
                            log_login_attempt db ''UNKNOWN'' False best_similarity None))))"

text \<open>
  \<^verbatim>\<open>web_app.py\<close>, \<^verbatim>\<open>api_voice_login\<close>, from the point where the chain of extraction
  methods has produced \<open>features\<close> or given up. (Its read of \<^verbatim>\<open>time\<close>, earlier in the
  function, finds the module's import.) One threshold, commented in the source
  as "lowered threshold for better usability", and no middle tier:
  \<^verbatim>\<open>
  if best_student and best_similarity >= 0.65:
      db.log_login_attempt(best_student['student_id'], True, best_similarity)
      return jsonify({'success': True, ...})
  else:
      db.log_login_attempt("UNKNOWN", False, best_similarity)
      return jsonify({'success': False, 'message': 'Voice not recognized', ...})
  \<close>
\<close>

definition api_voice_login ::
  "VoiceDatabase \<Rightarrow> ndarray option \<Rightarrow> login_outcome \<times> VoiceDatabase" where
  "api_voice_login db features_opt =
     (case features_opt of
        None \<Rightarrow> (FailedToProcessAudio, db)
      | Some features \<Rightarrow>
          let all_students = list_all_students db
          in if all_students = [] then (NoRegisteredStudents, db)
             else
               let (best_match, best_similarity, best_student) =
                     identify_loop db features all_students (None, 0, None)
               in (case best_student of
                     Some student \<Rightarrow>
                       if best_similarity \<ge> 65 / 100
                       then (WelcomeBack student best_similarity,
                             log_login_attempt db (s_student_id student) True best_similarity None)
                       else (VoiceNotRecognized best_similarity,
                             log_login_attempt db ''UNKNOWN'' False best_similarity None)
                   | None \<Rightarrow>
                       (VoiceNotRecognized best_similarity,
                        log_login_attempt db ''UNKNOWN'' False best_similarity None)))"

text \<open>The three tiers of the verification policy, read off an outcome.\<close>

datatype decision = Accept | PossibleMatch | Reject

fun decision_of :: "login_outcome \<Rightarrow> decision" where
  "decision_of (WelcomeBack student score) = Accept"
| "decision_of (PossibleMatchLowConfidence student score) = PossibleMatch"
| "decision_of FailedToProcessAudio = Reject"
| "decision_of NoRegisteredStudents = Reject"
| "decision_of (VoiceNotRecognized score) = Reject"
| "decision_of (AuthenticationError e) = Reject"

text \<open>
  The similarity of the probe to each active student, in the order of the loop, and the
  top similarity among them.
\<close>

definition student_scores :: "VoiceDatabase \<Rightarrow> ndarray \<Rightarrow> real list" where
  "student_scores db features =
     map (\<lambda>student. snd (verify_student_voice db (s_student_id student) features
                            default_similarity_threshold))
       (filter s_is_active (list_all_students db))"

definition top_similarity :: "VoiceDatabase \<Rightarrow> ndarray \<Rightarrow> real" where
  "top_similarity db features = Max (set (student_scores db features))"

subsection \<open>Classifier training (\<^verbatim>\<open>cli_app.py\<close> and \<^verbatim>\<open>app.py\<close>, \<^verbatim>\<open>train_model\<close>)\<close>

text \<open>
  \<^verbatim>\<open>get_all_student_embeddings\<close> joins the active students with their embeddings
  \<^verbatim>\<open>
  SELECT s.student_id, s.name, ve.embedding_data FROM students s
  JOIN voice_embeddings ve ON s.student_id = ve.student_id WHERE s.is_active = 1
  \<close>
  and groups the rows in a dictionary keyed by student id. The dictionary keeps the
  order in which keys were first inserted, so it is an association list here. (SQL does
  not fix the order of the joined rows; the model goes through the students, and for
  each through the embeddings.)
\<close>

definition join_rows :: "VoiceDatabase \<Rightarrow> (string \<times> string \<times> ndarray) list" where
  "join_rows db =
     concat (map (\<lambda>s. map (\<lambda>ve. (s_student_id s, s_name s, ve_embedding_data ve))
                         (filter (\<lambda>ve. s_student_id s = ve_student_id ve) (voice_embeddings db)))
               (filter s_is_active (students db)))"

type_synonym student_data = "(string \<times> (string \<times> ndarray list)) list"

text \<open>
  \<^verbatim>\<open>
  if student_id not in student_data:
      student_data[student_id] = {'name': name, 'embeddings': []}
  student_data[student_id]['embeddings'].append(embedding)
  \<close>
\<close>

fun add_row :: "string \<times> string \<times> ndarray \<Rightarrow> student_data \<Rightarrow> student_data" where
  "add_row (student_id, name, e) [] = [(student_id, (name, [e]))]"
| "add_row (student_id, name, e) ((k, (n, es)) # d) =
     (if k = student_id then (k, (n, es @ [e])) # d
      else (k, (n, es)) # add_row (student_id, name, e) d)"

definition get_all_student_embeddings :: "VoiceDatabase \<Rightarrow> student_data" where
  "get_all_student_embeddings db = fold add_row (join_rows db) []"

text \<open>
  The training set as handed to Keras: the samples, their class labels, the input shape
  and the number of classes.
\<close>

record training_set =
  X_train :: "ndarray list"
  y_train :: "nat list"
  input_shape :: "nat list"
  num_classes :: nat

text \<open>
  How \<^verbatim>\<open>train_model\<close> ends:
  \<^item> \<open>InsufficientTrainingData\<close>: the guard \<^verbatim>\<open>if len(student_data) < 2\<close> fired
    ("Need at least 2 registered students to train model"); nothing after it runs;
  \<^item> \<open>TrainingFailed\<close>: the guard was passed and preparing the arrays raised inside the
    \<^verbatim>\<open>try\<close> block, before any network was constructed;
  \<^item> \<open>TrainingStarted\<close>: the guard was passed and \<^verbatim>\<open>VoiceRecognitionCNN(input_shape,
    num_classes)\<close> is constructed, built, compiled and fitted on the training set. What
    Keras does from there is not modelled.
\<close>

datatype train_outcome =
  InsufficientTrainingData
| TrainingFailed
| TrainingStarted training_set

text \<open>
  \<^verbatim>\<open>
  for i, (student_id, data) in enumerate(student_data.items()):
      for embedding in data['embeddings']:
          X_train.append(embedding); y_train.append(i)
  \<close>
\<close>

fun collect_samples :: "nat \<Rightarrow> student_data \<Rightarrow> (ndarray \<times> nat) list" where
  "collect_samples i [] = []"
| "collect_samples i ((student_id, (name, es)) # d) =
     map (\<lambda>e. (e, i)) es @ collect_samples (Suc i) d"

text \<open>
  \<^verbatim>\<open>
  student_data = self.db.get_all_student_embeddings()
  if len(student_data) < 2: return False
  student_ids = list(student_data.keys())
  ... collect X_train, y_train ...
  X_train = np.array(X_train)
  X_train = X_train.reshape(X_train.shape[0], X_train.shape[1], X_train.shape[2], 1)
  input_shape = X_train.shape[1:]
  num_classes = len(student_ids)
  self.model = VoiceRecognitionCNN(input_shape, num_classes)
  \<close>
  \<^verbatim>\<open>np.array\<close> stacks the samples when they all have one shape \<open>sh\<close>, giving shape
  \<open>n # sh\<close>; the reshape then needs two dimensions in \<open>sh\<close> and an unchanged number
  of elements. Anything else raises.
\<close>

definition train_model :: "VoiceDatabase \<Rightarrow> train_outcome" where
  "train_model db =
     (let student_data = get_all_student_embeddings db
      in if length student_data < 2 then InsufficientTrainingData
         else
           let student_ids = map fst student_data;
               samples = collect_samples 0 student_data;
               xs = map fst samples;
               ys = map snd samples
           in (case xs of
                 [] \<Rightarrow> TrainingFailed
               | x # rest \<Rightarrow>
                   let sh = shape x
                   in if list_all (\<lambda>e. shape e = sh) rest \<and> length sh \<ge> 2 \<and>
                         prod_list sh = sh ! 0 * sh ! 1
                      then TrainingStarted
                             \<lparr>X_train = xs, y_train = ys,
                              input_shape = [sh ! 0, sh ! 1, 1],
                              num_classes = length student_ids\<rparr>
                      else TrainingFailed))"

text \<open>
  The identities the claim counts: the students that take part in training, that is the
  active students with at least one stored embedding.
\<close>

definition enrolled_identities :: "VoiceDatabase \<Rightarrow> string set" where
  "enrolled_identities db =
     {sid. (\<exists>s \<in> set (students db). s_is_active s \<and> s_student_id s = sid) \<and>
           (\<exists>ve \<in> set (voice_embeddings db). ve_student_id ve = sid)}"

section \<open>The preprocessing pipeline (\<^verbatim>\<open>preprocessing.py\<close>)\<close>

record AudioPreprocessor =
  sample_rate :: nat
  n_mfcc :: nat
  n_fft :: nat
  hop_length :: nat
  max_length :: nat

text \<open>\<^verbatim>\<open>AudioPreprocessor()\<close>: every front end constructs it with the defaults.\<close>

definition AudioPreprocessor_init :: AudioPreprocessor where
  "AudioPreprocessor_init =
     \<lparr>sample_rate = 22050, n_mfcc = 13, n_fft = 2048, hop_length = 512, max_length = 100\<rparr>"

text \<open>
  \<^verbatim>\<open>
  def pad_sequence(self, features):
      if len(features) > self.max_length:
          return features[:self.max_length]
      else:
          pad_width = self.max_length - len(features)
          return np.pad(features, ((0, pad_width), (0, 0)), mode='constant')
  \<close>
  \<^verbatim>\<open>len\<close> of an array is its first dimension and raises \<^verbatim>\<open>TypeError\<close> on an array
  without dimensions. The slice keeps the leading entries along the first axis.
  \<^verbatim>\<open>np.pad\<close> with two pairs of widths raises \<^verbatim>\<open>ValueError\<close> unless the array has
  exactly two dimensions; it then appends \<open>pad_width\<close> rows of zeros.
\<close>

definition pad_sequence :: "AudioPreprocessor \<Rightarrow> ndarray \<Rightarrow> py_error + ndarray" where
  "pad_sequence self features =
     (case shape features of
        [] \<Rightarrow> Inl TypeError
      | n # rest \<Rightarrow>
          if n > max_length self
          then Inr \<lparr>shape = max_length self # rest,
                    data = take (max_length self * prod_list rest) (data features)\<rparr>
          else
            let pad_width = max_length self - n
            in (case rest of
                  [c] \<Rightarrow> Inr \<lparr>shape = [n + pad_width, c],
                               data = data features @ replicate (pad_width * c) 0\<rparr>
                | _ \<Rightarrow> Inl ValueError))"

text \<open>
  \<^verbatim>\<open>
  def remove_silence(self, audio, threshold=0.01):
      try:
          energy = np.abs(audio)
          mask = energy > threshold
          if np.any(mask):
              result = audio[mask]
              return result
          else:
              return audio
      except Exception as e:
          return audio
  \<close>
  The audio is the one-dimensional sample array \<^verbatim>\<open>librosa.load\<close> returns, a list here.
\<close>

definition remove_silence :: "real list \<Rightarrow> real \<Rightarrow> real list" where
  "remove_silence audio threshold =
     (let energy = map abs audio;
          mask = map (\<lambda>e. e > threshold) energy
      in if list_ex id mask
         then map fst (filter snd (zip audio mask))
         else audio)"

definition default_threshold :: real where
  "default_threshold = 1 / 100"

text \<open>
  The parts of the pipeline that live in librosa and on the file system, as parameters:
  \<^item> \<open>load_audio\<close>: the method of that name; \<open>None\<close> when the file is missing, empty
    or cannot be decoded;
  \<^item> \<open>extract_mfcc\<close>: \<^verbatim>\<open>librosa.feature.mfcc(...).T\<close>, which may raise;
  \<^item> \<open>extract_spectrogram\<close>: the method of that name, which catches every exception of
    its own and returns \<^verbatim>\<open>None\<close> then.
\<close>

record audio_backend =
  load_audio :: "string \<Rightarrow> real list option"
  extract_mfcc :: "real list \<Rightarrow> py_error + ndarray"
  extract_spectrogram :: "real list \<Rightarrow> ndarray option"

text \<open>
  Why \<^verbatim>\<open>preprocess_audio\<close> returned \<^verbatim>\<open>None\<close>: one constructor for each such exit,
  named after the message printed there.
\<close>

datatype preprocess_failure =
  FailedToLoadAudio
| AudioEmptyAfterLoading
| NoAudioLeftAfterSilenceRemoval
| FeatureExtractionReturnedNone
| PipelineFailed py_error

text \<open>
  \<^verbatim>\<open>
  audio = self.load_audio(audio_path)
  if audio is None: return None
  if len(audio) == 0: return None
  audio = self.remove_silence(audio)
  if len(audio) == 0: return None
  if feature_type == 'mfcc': features = self.extract_mfcc(audio)
  elif feature_type == 'spectrogram': features = self.extract_spectrogram(audio)
  else: raise ValueError("feature_type must be 'mfcc' or 'spectrogram'")
  if features is None: return None
  features = self.pad_sequence(features)
  return features
  \<close>
  with \<^verbatim>\<open>except Exception: return None\<close> around it.
\<close>

definition preprocess_audio ::
  "audio_backend \<Rightarrow> AudioPreprocessor \<Rightarrow> string \<Rightarrow> string \<Rightarrow> preprocess_failure + ndarray" where
  "preprocess_audio backend self audio_path feature_type =
     (case load_audio backend audio_path of
        None \<Rightarrow> Inl FailedToLoadAudio
      | Some audio \<Rightarrow>
          if length audio = 0 then Inl AudioEmptyAfterLoading
          else
            let audio = remove_silence audio default_threshold
            in if length audio = 0 then Inl NoAudioLeftAfterSilenceRemoval
               else
                 let extracted =
                       (if feature_type = ''mfcc''
                        then (case extract_mfcc backend audio of
                                Inl e \<Rightarrow> Inl (PipelineFailed e)
                              | Inr f \<Rightarrow> Inr (Some f))
                        else if feature_type = ''spectrogram''
                        then Inr (extract_spectrogram backend audio)
                        else Inl (PipelineFailed ValueError))
                 in (case extracted of
                       Inl failure \<Rightarrow> Inl failure
                     | Inr None \<Rightarrow> Inl FeatureExtractionReturnedNone
                     | Inr (Some features) \<Rightarrow>
                         (case pad_sequence self features of
                            Inl e \<Rightarrow> Inl (PipelineFailed e)
                          | Inr padded \<Rightarrow> Inr padded)))"

text \<open>The rows of a two-dimensional array.\<close>

definition rows :: "ndarray \<Rightarrow> real list list" where
  "rows a =
     (case shape a of
        [r, c] \<Rightarrow> map (\<lambda>i. take c (drop (i * c) (data a))) [0..<r]
      | _ \<Rightarrow> [])"


section \<open>Notions used to state the properties\<close>

text \<open>The encodings stored for an identity: its rows of \<^verbatim>\<open>voice_embeddings\<close>.\<close>

definition stored_encodings :: "VoiceDatabase \<Rightarrow> string \<Rightarrow> ndarray list" where
  "stored_encodings db student_id =
     map ve_embedding_data
       (filter (\<lambda>row. ve_student_id row = student_id) (voice_embeddings db))"

subsection \<open>Identification and logging\<close>

text \<open>The similarity the loop computes for one student.\<close>

definition score :: "VoiceDatabase \<Rightarrow> ndarray \<Rightarrow> student_row \<Rightarrow> real" where
  "score db features student =
     snd (verify_student_voice db (s_student_id student) features default_similarity_threshold)"

text \<open>
  The identity and the score an outcome reports: the matched student or the sentinel
  \<^verbatim>\<open>"UNKNOWN"\<close>, and the value of \<^verbatim>\<open>best_similarity\<close>.
\<close>

fun reported_identity :: "login_outcome \<Rightarrow> string" where
  "reported_identity (WelcomeBack student s) = s_student_id student"
| "reported_identity (PossibleMatchLowConfidence student s) = s_student_id student"
| "reported_identity (VoiceNotRecognized s) = ''UNKNOWN''"
| "reported_identity FailedToProcessAudio = ''UNKNOWN''"
| "reported_identity NoRegisteredStudents = ''UNKNOWN''"
| "reported_identity (AuthenticationError e) = ''UNKNOWN''"

fun reported_score :: "login_outcome \<Rightarrow> real" where
  "reported_score (WelcomeBack student s) = s"
| "reported_score (PossibleMatchLowConfidence student s) = s"
| "reported_score (VoiceNotRecognized s) = s"
| "reported_score FailedToProcessAudio = 0"
| "reported_score NoRegisteredStudents = 0"
| "reported_score (AuthenticationError e) = 0"

text \<open>Every stored encoding is a matrix of \<open>r\<close> rows and \<open>c\<close> columns.\<close>

definition uniform_encodings :: "VoiceDatabase \<Rightarrow> nat \<Rightarrow> nat \<Rightarrow> bool" where
  "uniform_encodings db r c =
     list_all (\<lambda>ve. shape (ve_embedding_data ve) = [r, c]) (voice_embeddings db)"

text \<open>
  What librosa returns, as far as the shape goes: \<^verbatim>\<open>librosa.feature.mfcc(...).T\<close> is a
  matrix with one row for each frame and \<^verbatim>\<open>n_mfcc\<close> columns, and the transposed
  mel-spectrogram one with \<^verbatim>\<open>n_mels=128\<close> columns.
\<close>

definition librosa_shapes :: "audio_backend \<Rightarrow> AudioPreprocessor \<Rightarrow> bool" where
  "librosa_shapes backend self =
     (\<forall>audio f.
        (extract_mfcc backend audio = Inr f \<longrightarrow>
           wf_ndarray f \<and> (\<exists>frames. shape f = [frames, n_mfcc self])) \<and>
        (extract_spectrogram backend audio = Some f \<longrightarrow>
           wf_ndarray f \<and> (\<exists>frames. shape f = [frames, 128])))"

subsection \<open>Sample data\<close>

text \<open>
  Encodings of the canonical shapes, 100 frames of 128 mel bands and 100 frames of 13
  cepstral coefficients, zero from the third element on.
\<close>

definition sample_encoding :: "real \<Rightarrow> real \<Rightarrow> ndarray" where
  "sample_encoding a b = \<lparr>shape = [100, 128], data = a # b # replicate 12798 0\<rparr>"

definition sample_mfcc_encoding :: "real \<Rightarrow> real \<Rightarrow> ndarray" where
  "sample_mfcc_encoding a b = \<lparr>shape = [100, 13], data = a # b # replicate 1298 0\<rparr>"

definition sample_student :: "string \<Rightarrow> string \<Rightarrow> nat \<Rightarrow> student_row" where
  "sample_student student_id name date =
     \<lparr>s_student_id = student_id, s_name = name, s_email = None,
      s_registration_date = date, s_is_active = True\<rparr>"

definition sample_row :: "string \<Rightarrow> ndarray \<Rightarrow> nat \<Rightarrow> embedding_row" where
  "sample_row student_id e date =
     \<lparr>ve_student_id = student_id, ve_embedding_data = e, ve_audio_hash = None,
      ve_confidence_score = None, ve_registration_date = date\<rparr>"

text \<open>One student with three enrolled samples.\<close>

definition db_three_samples :: VoiceDatabase where
  "db_three_samples =
     \<lparr>students = [sample_student ''S1'' ''Ada'' 1],
      voice_embeddings =
        [sample_row ''S1'' (sample_encoding 3 4) 1,
         sample_row ''S1'' (sample_encoding 24 7) 2,
         sample_row ''S1'' (sample_encoding 20 21) 3],
      login_attempts = []\<rparr>"

text \<open>One student with one enrolled sample, of similarity 20/29 to \<open>sample_encoding 1 0\<close>.\<close>

definition db_one_sample :: VoiceDatabase where
  "db_one_sample =
     \<lparr>students = [sample_student ''S1'' ''Ada'' 1],
      voice_embeddings = [sample_row ''S1'' (sample_encoding 20 21) 1],
      login_attempts = []\<rparr>"

text \<open>No student registered.\<close>

definition db_empty :: VoiceDatabase where
  "db_empty = \<lparr>students = [], voice_embeddings = [], login_attempts = []\<rparr>"

text \<open>Two students with one enrolled sample each.\<close>

definition db_two_students :: VoiceDatabase where
  "db_two_students =
     \<lparr>students = [sample_student ''S1'' ''Ada'' 1, sample_student ''S2'' ''Bob'' 2],
      voice_embeddings =
        [sample_row ''S1'' (sample_encoding 3 4) 1,
         sample_row ''S2'' (sample_encoding 24 7) 2],
      login_attempts = []\<rparr>"

text \<open>A backend that returns two frames for every recording.\<close>

definition sample_backend :: audio_backend where
  "sample_backend =
     \<lparr>load_audio = (\<lambda>path. Some [5 / 10, - 2 / 10]),
      extract_mfcc = (\<lambda>audio. Inr \<lparr>shape = [2, 13], data = replicate 26 1\<rparr>),
      extract_spectrogram = (\<lambda>audio. Some \<lparr>shape = [2, 128], data = replicate 256 (- 1)\<rparr>)\<rparr>"

section \<open>Properties of the similarity engine\<close>

subsection \<open>The Cauchy-Schwarz inequality on lists\<close>

lemma sumsq_nonneg: "0 \<le> sum_list (map (\<lambda>x. x * x) (xs::real list))"
  by (rule sum_list_nonneg) auto

lemma sumsq_eq_0_iff:
  "sum_list (map (\<lambda>x. x * x) (xs::real list)) = 0 \<longleftrightarrow> (\<forall>x\<in>set xs. x = 0)"
  by (induction xs) (auto simp: add_nonneg_eq_0_iff sumsq_nonneg)

lemma cs_step:
  fixes x y s A B :: real
  assumes A: "0 \<le> A" and B: "0 \<le> B" and ih: "s\<^sup>2 \<le> A * B"
  shows "(x * y + s)\<^sup>2 \<le> (x * x + A) * (y * y + B)"
proof -
  let ?r = "x * x * B + y * y * A"
  have r: "0 \<le> ?r" using A B by simp
  have "(2 * x * y * s)\<^sup>2 = 4 * (x * x) * (y * y) * s\<^sup>2"
    by (simp add: power2_eq_square)
  also have "\<dots> \<le> 4 * (x * x) * (y * y) * (A * B)"
    using ih by (intro mult_left_mono) simp_all
  also have "\<dots> \<le> ?r\<^sup>2"
  proof -
    have "0 \<le> (x * x * B - y * y * A)\<^sup>2" by simp
    then show ?thesis by (simp add: power2_eq_square algebra_simps)
  qed
  finally have "2 * x * y * s \<le> ?r"
    using r by (rule power2_le_imp_le)
  moreover have "(x * y + s)\<^sup>2 = x * x * (y * y) + 2 * x * y * s + s\<^sup>2"
    by (simp add: power2_eq_square algebra_simps)
  moreover have "(x * x + A) * (y * y + B) = x * x * (y * y) + ?r + A * B"
    by (simp add: algebra_simps)
  ultimately show ?thesis using ih by linarith
qed

lemma cs_sq:
  "(sum_list (map (\<lambda>(x, y). x * y) (zip xs ys)))\<^sup>2
     \<le> sum_list (map (\<lambda>x. x * x) xs) * sum_list (map (\<lambda>y. y * y) (ys::real list))"
proof (induction xs ys rule: list_induct2')
  case (4 x xs y ys)
  show ?case
    using cs_step [OF sumsq_nonneg [of xs] sumsq_nonneg [of ys] 4] by simp
qed (auto intro!: mult_nonneg_nonneg sumsq_nonneg)

subsection \<open>Norm and dot product\<close>

lemma linalg_norm_nonneg: "0 \<le> linalg_norm a"
  by (simp add: linalg_norm_def sumsq_nonneg)

lemma linalg_norm_eq_0_iff: "linalg_norm a = 0 \<longleftrightarrow> (\<forall>x\<in>set (data a). x = 0)"
  by (simp add: linalg_norm_def sumsq_eq_0_iff)

lemma data_flat [simp]: "data (flat a) = data a"
  by (simp add: flat_def flatten_def)

lemma linalg_norm_flat [simp]: "linalg_norm (flat a) = linalg_norm a"
  by (simp add: linalg_norm_def)

lemma dot_le_norms: "\<bar>dot a b\<bar> \<le> linalg_norm a * linalg_norm b"
proof -
  have "(dot a b)\<^sup>2 \<le> (linalg_norm a * linalg_norm b)\<^sup>2"
    using cs_sq [of "data a" "data b"]
    by (simp add: dot_def linalg_norm_def power_mult_distrib sumsq_nonneg)
  moreover have "0 \<le> linalg_norm a * linalg_norm b"
    by (simp add: linalg_norm_def sumsq_nonneg)
  ultimately show ?thesis
    by (metis abs_le_square_iff abs_of_nonneg)
qed

lemma dot_commute: "dot a b = dot b a"
proof -
  have "map (\<lambda>(x, y). x * y) (zip xs ys) = map (\<lambda>(x, y). x * y) (zip ys (xs::real list))"
    for xs ys
    by (induction xs ys rule: list_induct2') (simp_all add: mult.commute)
  then show ?thesis by (simp add: dot_def)
qed

lemma quotient_bounds:
  assumes "linalg_norm x \<noteq> 0" and "linalg_norm y \<noteq> 0"
  shows "- 1 \<le> dot x y / (linalg_norm x * linalg_norm y)"
    and "dot x y / (linalg_norm x * linalg_norm y) \<le> 1"
proof -
  have pos: "0 < linalg_norm x * linalg_norm y"
    using assms linalg_norm_nonneg [of x] linalg_norm_nonneg [of y] by (simp add: less_le)
  have "\<bar>dot x y\<bar> \<le> linalg_norm x * linalg_norm y" by (rule dot_le_norms)
  then have "- (linalg_norm x * linalg_norm y) \<le> dot x y"
    and "dot x y \<le> linalg_norm x * linalg_norm y" by linarith+
  then show "- 1 \<le> dot x y / (linalg_norm x * linalg_norm y)"
    and "dot x y / (linalg_norm x * linalg_norm y) \<le> 1"
    using pos by (simp_all add: pos_le_divide_eq pos_divide_le_eq)
qed

text \<open>The three exits of the comparison, in the order of the source.\<close>

lemma calculate_cosine_similarity_cases:
  "calculate_cosine_similarity a b =
     (if shape (flat a) \<noteq> shape (flat b) then 0
      else if linalg_norm (flat a) = 0 \<or> linalg_norm (flat b) = 0 then 0
      else dot (flat a) (flat b) / (linalg_norm (flat a) * linalg_norm (flat b)))"
  by (simp add: calculate_cosine_similarity_def flat_def Let_def)

lemma calculate_cosine_similarity_bounds:
  "- 1 \<le> calculate_cosine_similarity a b" "calculate_cosine_similarity a b \<le> 1"
  unfolding calculate_cosine_similarity_cases
  using quotient_bounds [of "flat a" "flat b"] by simp_all

lemma sqrt_841: "sqrt 841 = 29"
  using real_sqrt_abs [of 29] by simp


lemma sqrt_25: "sqrt 25 = 5"
  using real_sqrt_abs [of 5] by simp

lemma sqrt_625: "sqrt 625 = 25"
  using real_sqrt_abs [of 25] by simp

text \<open>The similarity of the sample encodings.\<close>

lemma similarity_sample_encoding:
  "calculate_cosine_similarity (sample_encoding a b) (sample_encoding c d) =
     (if (a = 0 \<and> b = 0) \<or> (c = 0 \<and> d = 0) then 0
      else (a * c + b * d) / (sqrt (a * a + b * b) * sqrt (c * c + d * d)))"
  by (simp add: calculate_cosine_similarity_def sample_encoding_def flatten_def
      linalg_norm_def dot_def zip_replicate sum_list_replicate Let_def)

lemma similarity_sample_mfcc_encoding:
  "calculate_cosine_similarity (sample_mfcc_encoding a b) (sample_mfcc_encoding c d) =
     (if (a = 0 \<and> b = 0) \<or> (c = 0 \<and> d = 0) then 0
      else (a * c + b * d) / (sqrt (a * a + b * b) * sqrt (c * c + d * d)))"
  by (simp add: calculate_cosine_similarity_def sample_mfcc_encoding_def flatten_def
      linalg_norm_def dot_def zip_replicate sum_list_replicate Let_def)

subsection \<open>Range of the similarity\<close>

text \<open>
  Claim C1, as amended. For every pair of encodings the similarity is 0 when the
  flattened shapes differ or one of the norms is zero, and otherwise the cosine of the
  two flattened encodings, dot(a, b) / (|a| |b|). It is not clamped: in exact arithmetic
  it lies between -1 and 1, and it is negative when the dot product is.
\<close>

theorem cosine_similarity_range:
  "calculate_cosine_similarity a b =
     (if shape (flat a) = shape (flat b) \<and> linalg_norm (flat a) \<noteq> 0 \<and> linalg_norm (flat b) \<noteq> 0
      then dot (flat a) (flat b) / (linalg_norm (flat a) * linalg_norm (flat b))
      else 0)
   \<and> - 1 \<le> calculate_cosine_similarity a b
   \<and> calculate_cosine_similarity a b \<le> 1"
proof -
  have "calculate_cosine_similarity a b =
     (if shape (flat a) = shape (flat b) \<and> linalg_norm (flat a) \<noteq> 0 \<and> linalg_norm (flat b) \<noteq> 0
      then dot (flat a) (flat b) / (linalg_norm (flat a) * linalg_norm (flat b))
      else 0)"
    unfolding calculate_cosine_similarity_cases by simp
  then show ?thesis
    using calculate_cosine_similarity_bounds [of a b] by blast
qed

theorem cosine_similarity_range_witness:
  "calculate_cosine_similarity (sample_encoding 1 0) (sample_encoding 20 21) = 20 / 29
   \<and> - 1 \<le> calculate_cosine_similarity (sample_encoding 1 0) (sample_encoding 20 21)
   \<and> calculate_cosine_similarity (sample_encoding 1 0) (sample_encoding 20 21) \<le> 1"
  using cosine_similarity_range [of "sample_encoding 1 0" "sample_encoding 20 21"]
  by (simp add: similarity_sample_encoding sqrt_841)

text \<open>
  The claim as written, a similarity in [0, 1], fails on two cepstral encodings that
  point in opposite directions: the similarity is -1.
\<close>

theorem cosine_similarity_negative:
  "calculate_cosine_similarity (sample_mfcc_encoding 1 0) (sample_mfcc_encoding (- 1) 0) = - 1
   \<and> \<not> 0 \<le> calculate_cosine_similarity (sample_mfcc_encoding 1 0) (sample_mfcc_encoding (- 1) 0)"
  by (simp add: similarity_sample_mfcc_encoding)

subsection \<open>Degenerate inputs\<close>

text \<open>A zero norm makes the dot product zero as well.\<close>

lemma dot_eq_0:
  assumes "linalg_norm a = 0 \<or> linalg_norm b = 0"
  shows "dot a b = 0"
proof -
  have "\<bar>dot a b\<bar> \<le> linalg_norm a * linalg_norm b" by (rule dot_le_norms)
  with assms have "\<bar>dot a b\<bar> \<le> 0" by auto
  then show ?thesis by simp
qed

text \<open>
  So the division the function would reach on an encoding of norm zero is 0/0, which
  numpy answers with NaN: the early return is what keeps NaN out of the result.
\<close>

lemma unguarded_division_NaN:
  assumes "linalg_norm a = 0 \<or> linalg_norm b = 0"
  shows "np_divide (dot a b) (linalg_norm a * linalg_norm b) = NaN"
  using assms dot_eq_0 [OF assms] by (auto simp: np_divide_def)

lemma calculate_cosine_similarity_np_cases:
  "calculate_cosine_similarity_np a b =
     (if shape (flat a) \<noteq> shape (flat b) then Num 0
      else if linalg_norm (flat a) = 0 \<or> linalg_norm (flat b) = 0 then Num 0
      else np_divide (dot (flat a) (flat b)) (linalg_norm (flat a) * linalg_norm (flat b)))"
  by (simp add: calculate_cosine_similarity_np_def flat_def Let_def)

text \<open>
  With the two early returns in place the division never has a zero divisor: the result
  is always a number, the one the real-valued definition computes.
\<close>

lemma calculate_cosine_similarity_np_Num:
  "calculate_cosine_similarity_np a b = Num (calculate_cosine_similarity a b)"
  unfolding calculate_cosine_similarity_np_cases calculate_cosine_similarity_cases
  by (simp add: np_divide_def)

text \<open>
  Claim C6. Whenever the flattened shapes of the two encodings differ, or one of them has
  norm zero (in particular when all its elements are zero), the comparison returns
  exactly the number 0.0, not NaN and not an infinity: it returns at one of its two
  guards and never reaches the division.
\<close>

theorem cosine_similarity_degenerate:
  assumes "shape (flat a) \<noteq> shape (flat b) \<or> linalg_norm a = 0 \<or> linalg_norm b = 0
           \<or> (\<forall>x \<in> set (data a). x = 0) \<or> (\<forall>x \<in> set (data b). x = 0)"
  shows "calculate_cosine_similarity_np a b = Num 0
         \<and> calculate_cosine_similarity_np a b \<noteq> NaN
         \<and> calculate_cosine_similarity a b = 0"
proof -
  have "shape (flat a) \<noteq> shape (flat b) \<or> linalg_norm (flat a) = 0 \<or> linalg_norm (flat b) = 0"
    using assms by (auto simp: linalg_norm_eq_0_iff)
  then have "calculate_cosine_similarity_np a b = Num 0"
    unfolding calculate_cosine_similarity_np_cases by auto
  moreover from this have "calculate_cosine_similarity a b = 0"
    by (simp add: calculate_cosine_similarity_np_Num)
  ultimately show ?thesis by simp
qed

theorem cosine_similarity_degenerate_witness:
  "shape (flat (sample_encoding 1 2)) \<noteq> shape (flat (sample_mfcc_encoding 1 2))
   \<and> calculate_cosine_similarity_np (sample_encoding 1 2) (sample_mfcc_encoding 1 2) = Num 0
   \<and> linalg_norm (sample_encoding 0 0) = 0
   \<and> calculate_cosine_similarity_np (sample_encoding 0 0) (sample_encoding 1 2) = Num 0
   \<and> calculate_cosine_similarity_np (sample_encoding 1 2) (sample_encoding 0 0) = Num 0
   \<and> np_divide (dot (sample_encoding 0 0) (sample_encoding 1 2))
        (linalg_norm (sample_encoding 0 0) * linalg_norm (sample_encoding 1 2)) = NaN"
proof -
  have h1: "shape (flat (sample_encoding 1 2)) \<noteq> shape (flat (sample_mfcc_encoding 1 2))"
    by (simp add: flat_def flatten_def sample_encoding_def sample_mfcc_encoding_def)
  have h2: "linalg_norm (sample_encoding 0 0) = 0"
    by (simp add: linalg_norm_def sample_encoding_def sum_list_replicate)
  have n: "np_divide (dot (sample_encoding 0 0) (sample_encoding 1 2))
        (linalg_norm (sample_encoding 0 0) * linalg_norm (sample_encoding 1 2)) = NaN"
    by (rule unguarded_division_NaN) (simp add: h2)
  show ?thesis
    using h1 h2 n
      cosine_similarity_degenerate [of "sample_encoding 1 2" "sample_mfcc_encoding 1 2"]
      cosine_similarity_degenerate [of "sample_encoding 0 0" "sample_encoding 1 2"]
      cosine_similarity_degenerate [of "sample_encoding 1 2" "sample_encoding 0 0"]
    by blast
qed

subsection \<open>Symmetry\<close>

text \<open>
  Claim C7. The similarity of a to b equals the similarity of b to a, for all encodings
  a and b.
\<close>

theorem cosine_similarity_symmetric:
  "calculate_cosine_similarity a b = calculate_cosine_similarity b a"
  unfolding calculate_cosine_similarity_cases
  by (auto simp: dot_commute mult.commute)

section \<open>Closed-set verification\<close>

lemma fold_max_Max: "fold max xs (x::real) = Max (set (x # xs))"
  using Max.set_eq_fold [of x xs] by simp

lemma py_max_Max: "xs \<noteq> [] \<Longrightarrow> py_max xs = Some (Max (set xs))"
  by (cases xs) (simp_all add: fold_max_Max)

lemma set_get_student_embeddings:
  "embedding ` set (get_student_embeddings db sid) = set (stored_encodings db sid)"
  by (auto simp: get_student_embeddings_def stored_encodings_def Let_def image_iff)

lemma get_student_embeddings_Nil:
  "get_student_embeddings db sid = [] \<longleftrightarrow> stored_encodings db sid = []"
  using set_get_student_embeddings [of db sid]
  by (metis image_is_empty set_empty)

lemma verify_student_voice_empty:
  "stored_encodings db sid = [] \<Longrightarrow> verify_student_voice db sid probe t = (False, 0)"
  by (simp add: verify_student_voice_def get_student_embeddings_Nil)

lemma verify_student_voice_nonempty:
  assumes "stored_encodings db sid \<noteq> []"
  shows "verify_student_voice db sid probe t =
     (Max (calculate_cosine_similarity probe ` set (stored_encodings db sid)) \<ge> t,
      Max (calculate_cosine_similarity probe ` set (stored_encodings db sid)))"
proof -
  let ?es = "get_student_embeddings db sid"
  let ?sims = "map (\<lambda>e. calculate_cosine_similarity probe (embedding e)) ?es"
  have ne: "?es \<noteq> []" using assms by (simp add: get_student_embeddings_Nil)
  have img: "set ?sims = calculate_cosine_similarity probe ` set (stored_encodings db sid)"
    unfolding set_get_student_embeddings [symmetric] image_image by simp
  have "py_max ?sims =
      Some (Max (calculate_cosine_similarity probe ` set (stored_encodings db sid)))"
    using ne py_max_Max [of ?sims] img by simp
  then show ?thesis using ne
    by (simp add: verify_student_voice_def Let_def)
qed

text \<open>
  Claim C2. For an identity with at least one stored encoding and any probe,
  \<^verbatim>\<open>verify_student_voice\<close> with the default threshold returns the pair
  (is_match, score) in which score is the maximum of the similarities of the probe to
  the stored encodings of that identity, and is_match holds exactly when that maximum is
  at least 0.8.
\<close>

theorem verify_student_voice_max:
  assumes "stored_encodings db sid \<noteq> []"
  shows "verify_student_voice db sid probe default_similarity_threshold =
     (Max (calculate_cosine_similarity probe ` set (stored_encodings db sid)) \<ge> 8 / 10,
      Max (calculate_cosine_similarity probe ` set (stored_encodings db sid)))"
  using verify_student_voice_nonempty [OF assms]
  by (simp add: default_similarity_threshold_def)

text \<open>
  Three stored samples of similarity 3/5, 24/25 and 20/29 to the probe: the score is
  24/25 and the attempt matches, although the average of the three is below 0.8.
\<close>

theorem verify_student_voice_max_witness:
  "stored_encodings db_three_samples ''S1'' \<noteq> [] \<and>
   verify_student_voice db_three_samples ''S1'' (sample_encoding 1 0)
     default_similarity_threshold = (True, 24 / 25) \<and>
   (3 / 5 + 24 / 25 + 20 / 29) / 3 < (8 / 10 :: real)"
proof -
  have h: "stored_encodings db_three_samples ''S1'' \<noteq> []"
    by (simp add: stored_encodings_def db_three_samples_def sample_row_def)
  have "verify_student_voice db_three_samples ''S1'' (sample_encoding 1 0)
     default_similarity_threshold = (True, 24 / 25)"
    unfolding verify_student_voice_max [OF h]
    by (simp add: stored_encodings_def db_three_samples_def sample_row_def
        similarity_sample_encoding sqrt_25 sqrt_625 sqrt_841)
  with h show ?thesis by simp
qed


section \<open>Properties of the preprocessing pipeline\<close>

lemma mask_filter: "map fst (filter snd (zip xs (map P xs))) = filter P xs"
  by (induction xs) simp_all

lemma list_ex_mask: "list_ex id (map P xs) \<longleftrightarrow> (\<exists>x \<in> set xs. P x)"
  by (simp add: list_ex_iff)

lemma remove_silence_filter:
  "remove_silence audio t =
     (if \<exists>x \<in> set audio. \<bar>x\<bar> > t then filter (\<lambda>x. \<bar>x\<bar> > t) audio else audio)"
proof -
  have m: "map (\<lambda>e. e > t) (map abs audio) = map (\<lambda>x. \<bar>x\<bar> > t) audio" by simp
  show ?thesis
    unfolding remove_silence_def Let_def m mask_filter list_ex_mask by simp
qed

lemma remove_silence_nonempty: "audio \<noteq> [] \<Longrightarrow> remove_silence audio t \<noteq> []"
  unfolding remove_silence_filter by (auto simp: filter_empty_conv)

lemma preprocess_never_no_audio:
  "preprocess_audio backend self path ft \<noteq> Inl NoAudioLeftAfterSilenceRemoval"
proof (cases "load_audio backend path")
  case None
  then show ?thesis by (simp add: preprocess_audio_def)
next
  case (Some audio)
  show ?thesis
  proof (cases "audio = []")
    case True
    with Some show ?thesis by (simp add: preprocess_audio_def)
  next
    case False
    then have "remove_silence audio default_threshold \<noteq> []"
      by (rule remove_silence_nonempty)
    with Some False show ?thesis
      by (auto simp: preprocess_audio_def Let_def split: sum.splits option.splits)
  qed
qed

lemma row_take:
  assumes "i < m"
  shows "take c (drop (i * c) (take (m * c) d)) = take c (drop (i * c) d)"
proof -
  have "c \<le> (m - i) * c" using assms by (cases "m - i") simp_all
  then have "min c (m * c - i * c) = c" by (simp add: diff_mult_distrib)
  then show ?thesis by (simp add: drop_take min.commute)
qed

lemma row_append_left:
  assumes "length d = r * c" and "i < r"
  shows "take c (drop (i * c) (d @ z)) = take c (drop (i * c) d)"
proof -
  have "c \<le> (r - i) * c" using assms(2) by (cases "r - i") simp_all
  then have "c \<le> length d - i * c" using assms(1) by (simp add: diff_mult_distrib)
  then show ?thesis by simp
qed

lemma row_append_right:
  assumes "length d = r * c" and "r \<le> i" and "i < m"
  shows "take c (drop (i * c) (d @ replicate ((m - r) * c) (0::real))) = replicate c 0"
proof -
  have le: "r * c \<le> i * c" using assms(2) by simp
  have "(m - r) * c - (i * c - r * c) = (m - i) * c"
    using assms(2,3) by (simp add: diff_mult_distrib)
  moreover have "c \<le> (m - i) * c" using assms(3) by (cases "m - i") simp_all
  ultimately show ?thesis using assms(1) le by (simp add: min_def)
qed

lemma rows_2d: "shape a = [r, c] \<Longrightarrow> rows a = map (\<lambda>i. take c (drop (i * c) (data a))) [0..<r]"
  by (simp add: rows_def)

lemma pad_truncate:
  assumes "shape f = [r, c]" and "r > max_length self"
  shows "pad_sequence self f =
     Inr \<lparr>shape = [max_length self, c], data = take (max_length self * c) (data f)\<rparr>"
  using assms by (simp add: pad_sequence_def)

lemma pad_extend:
  assumes "shape f = [r, c]" and "r \<le> max_length self"
  shows "pad_sequence self f =
     Inr \<lparr>shape = [max_length self, c],
          data = data f @ replicate ((max_length self - r) * c) 0\<rparr>"
  using assms by (simp add: pad_sequence_def Let_def)

lemma rows_truncate:
  assumes "m < r"
  shows "rows \<lparr>shape = [m, c], data = take (m * c) d\<rparr>
       = take m (rows \<lparr>shape = [r, c], data = d\<rparr>)"
proof -
  have "map (\<lambda>i. take c (drop (i * c) (take (m * c) d))) [0..<m]
      = map (\<lambda>i. take c (drop (i * c) d)) [0..<m]"
  proof (rule map_cong [OF refl])
    fix i assume "i \<in> set [0..<m]"
    then have "i < m" by simp
    then show "take c (drop (i * c) (take (m * c) d)) = take c (drop (i * c) d)"
      by (rule row_take)
  qed
  moreover have "take m [0..<r] = [0..<m]" using assms by simp
  ultimately show ?thesis by (simp add: rows_def take_map)
qed

lemma rows_extend:
  assumes "length d = r * c" and "r \<le> m"
  shows "rows \<lparr>shape = [m, c], data = d @ replicate ((m - r) * c) 0\<rparr>
       = rows \<lparr>shape = [r, c], data = d\<rparr> @ replicate (m - r) (replicate c 0)"
proof -
  let ?z = "replicate ((m - r) * c) (0::real)"
  have upt_split: "[0..<m] = [0..<r] @ [r..<m]"
    using assms(2) by (metis le_add_diff_inverse upt_add_eq_append zero_le)
  have l: "map (\<lambda>i. take c (drop (i * c) (d @ ?z))) [0..<r]
      = map (\<lambda>i. take c (drop (i * c) d)) [0..<r]"
  proof (rule map_cong [OF refl])
    fix i assume "i \<in> set [0..<r]"
    then have "i < r" by simp
    then show "take c (drop (i * c) (d @ ?z)) = take c (drop (i * c) d)"
      by (rule row_append_left [OF assms(1)])
  qed
  have "map (\<lambda>i. take c (drop (i * c) (d @ ?z))) [r..<m]
      = map (\<lambda>i. replicate c 0) [r..<m]"
  proof (rule map_cong [OF refl])
    fix i assume "i \<in> set [r..<m]"
    then have "r \<le> i" "i < m" by simp_all
    then show "take c (drop (i * c) (d @ ?z)) = replicate c 0"
      by (rule row_append_right [OF assms(1)])
  qed
  then have rr: "map (\<lambda>i. take c (drop (i * c) (d @ ?z))) [r..<m]
      = replicate (m - r) (replicate c 0)"
    by (simp add: map_replicate_const)
  show ?thesis
    unfolding rows_def
    by (simp only: ndarray.simps list.case)
      (simp only: upt_split map_append l rr)
qed

subsection \<open>Fixed-length encoding\<close>

lemma pad_sequence_rows:
  assumes "wf_ndarray features" and "shape features = [r, c]"
  shows "\<exists>padded. pad_sequence AudioPreprocessor_init features = Inr padded
     \<and> shape padded = [100, c] \<and> wf_ndarray padded \<and> length (rows padded) = 100
     \<and> (r > 100 \<longrightarrow> rows padded = take 100 (rows features))
     \<and> (r \<le> 100 \<longrightarrow> rows padded = rows features @ replicate (100 - r) (replicate c 0))"
proof -
  have len: "length (data features) = r * c"
    using assms by (simp add: wf_ndarray_def)
  have f: "features = \<lparr>shape = [r, c], data = data features\<rparr>"
    using assms(2) by (cases features) simp
  have m: "max_length AudioPreprocessor_init = 100"
    by (simp add: AudioPreprocessor_init_def)
  show ?thesis
  proof (cases "r > 100")
    case True
    have "pad_sequence AudioPreprocessor_init features =
        Inr \<lparr>shape = [100, c], data = take (100 * c) (data features)\<rparr>"
      using pad_truncate [OF assms(2), of AudioPreprocessor_init] True by (simp add: m)
    moreover have "rows \<lparr>shape = [100, c], data = take (100 * c) (data features)\<rparr>
        = take 100 (rows features)"
      using rows_truncate [of 100 r c "data features"] True f by simp
    moreover have "wf_ndarray \<lparr>shape = [100, c], data = take (100 * c) (data features)\<rparr>"
      using True len by (simp add: wf_ndarray_def)
    moreover have "length (rows \<lparr>shape = [100, c], data = take (100 * c) (data features)\<rparr>) = 100"
      by (simp add: rows_def)
    ultimately show ?thesis using True by simp
  next
    case False
    then have le: "r \<le> 100" by simp
    have "pad_sequence AudioPreprocessor_init features =
        Inr \<lparr>shape = [100, c], data = data features @ replicate ((100 - r) * c) 0\<rparr>"
      using pad_extend [OF assms(2), of AudioPreprocessor_init] le by (simp add: m)
    moreover have "rows \<lparr>shape = [100, c], data = data features @ replicate ((100 - r) * c) 0\<rparr>
        = rows features @ replicate (100 - r) (replicate c 0)"
      using rows_extend [OF len le] f by simp
    moreover have "wf_ndarray \<lparr>shape = [100, c], data = data features @ replicate ((100 - r) * c) 0\<rparr>"
      using le len by (simp add: wf_ndarray_def add_mult_distrib [symmetric])
    moreover have "length (rows \<lparr>shape = [100, c],
        data = data features @ replicate ((100 - r) * c) 0\<rparr>) = 100"
      by (simp add: rows_def)
    ultimately show ?thesis using le by simp
  qed
qed

text \<open>
  Every encoding the pipeline returns is what \<^verbatim>\<open>pad_sequence\<close> made of the extractor's
  output for the feature type asked for.
\<close>

lemma preprocess_audio_padded:
  assumes "preprocess_audio backend self path ft = Inr encoding"
  shows "\<exists>audio extracted. audio \<noteq> [] \<and> pad_sequence self extracted = Inr encoding \<and>
           (ft = ''mfcc'' \<and> extract_mfcc backend audio = Inr extracted \<or>
            ft = ''spectrogram'' \<and> extract_spectrogram backend audio = Some extracted)"
proof -
  from assms obtain loaded where l: "load_audio backend path = Some loaded" and ne: "loaded \<noteq> []"
    by (auto simp: preprocess_audio_def split: option.splits if_splits)
  let ?audio = "remove_silence loaded default_threshold"
  have ne': "?audio \<noteq> []" using ne by (rule remove_silence_nonempty)
  consider "ft = ''mfcc''" | "ft \<noteq> ''mfcc''" "ft = ''spectrogram''"
    | "ft \<noteq> ''mfcc''" "ft \<noteq> ''spectrogram''" by blast
  then show ?thesis
  proof cases
    case 1
    with assms l ne ne' obtain extracted where "extract_mfcc backend ?audio = Inr extracted"
      and "pad_sequence self extracted = Inr encoding"
      by (auto simp: preprocess_audio_def Let_def split: sum.splits)
    with 1 ne' show ?thesis by blast
  next
    case 2
    with assms l ne ne' obtain extracted where "extract_spectrogram backend ?audio = Some extracted"
      and "pad_sequence self extracted = Inr encoding"
      by (auto simp: preprocess_audio_def Let_def split: sum.splits option.splits)
    with 2 ne' show ?thesis by blast
  next
    case 3
    with assms l ne ne' show ?thesis
      by (simp add: preprocess_audio_def Let_def)
  qed
qed

text \<open>With librosa's shapes, that is 100 frames of 13 coefficients or of 128 bands.\<close>

lemma preprocess_audio_canonical:
  assumes "librosa_shapes backend AudioPreprocessor_init"
    and "preprocess_audio backend AudioPreprocessor_init path ft = Inr encoding"
  shows "wf_ndarray encoding \<and> length (rows encoding) = 100 \<and>
         (ft = ''mfcc'' \<and> shape encoding = [100, 13] \<or>
          ft = ''spectrogram'' \<and> shape encoding = [100, 128])"
proof -
  from preprocess_audio_padded [OF assms(2)]
  obtain audio extracted where p: "pad_sequence AudioPreprocessor_init extracted = Inr encoding"
    and e: "ft = ''mfcc'' \<and> extract_mfcc backend audio = Inr extracted \<or>
            ft = ''spectrogram'' \<and> extract_spectrogram backend audio = Some extracted"
    by blast
  have n: "n_mfcc AudioPreprocessor_init = 13" by (simp add: AudioPreprocessor_init_def)
  from e show ?thesis
  proof
    assume m: "ft = ''mfcc'' \<and> extract_mfcc backend audio = Inr extracted"
    with assms(1) n obtain frames where "wf_ndarray extracted" "shape extracted = [frames, 13]"
      unfolding librosa_shapes_def by metis
    from pad_sequence_rows [OF this] p m show ?thesis by auto
  next
    assume m: "ft = ''spectrogram'' \<and> extract_spectrogram backend audio = Some extracted"
    with assms(1) obtain frames where "wf_ndarray extracted" "shape extracted = [frames, 128]"
      unfolding librosa_shapes_def by metis
    from pad_sequence_rows [OF this] p m show ?thesis by auto
  qed
qed

text \<open>And the pipeline does return an encoding once audio was loaded and features extracted.\<close>

lemma preprocess_audio_returns:
  assumes "librosa_shapes backend AudioPreprocessor_init"
    and "load_audio backend path = Some audio" and "audio \<noteq> []"
    and "ft = ''mfcc'' \<and>
           extract_mfcc backend (remove_silence audio default_threshold) = Inr extracted \<or>
         ft = ''spectrogram'' \<and>
           extract_spectrogram backend (remove_silence audio default_threshold) = Some extracted"
  shows "\<exists>encoding. preprocess_audio backend AudioPreprocessor_init path ft = Inr encoding"
proof -
  have ne: "remove_silence audio default_threshold \<noteq> []"
    using assms(3) by (rule remove_silence_nonempty)
  from assms(1,4) obtain frames c where "wf_ndarray extracted" "shape extracted = [frames, c]"
    unfolding librosa_shapes_def by metis
  from pad_sequence_rows [OF this]
  obtain padded where "pad_sequence AudioPreprocessor_init extracted = Inr padded" by blast
  with assms(2,3,4) ne show ?thesis
    by (auto simp: preprocess_audio_def Let_def)
qed

text \<open>
  Claim C4. For every well-formed feature matrix of r rows and c columns, \<^verbatim>\<open>pad_sequence\<close>
  of the default preprocessor returns a well-formed matrix of exactly 100 rows and c
  columns: the first 100 rows of the input when r exceeds 100, and the input followed
  by 100 - r rows of zeros otherwise. Every encoding \<^verbatim>\<open>preprocess_audio\<close> returns is the
  result of \<^verbatim>\<open>pad_sequence\<close> on the extractor's output; with librosa's output shapes it
  is a well-formed matrix of shape 100 by 13 for \<^verbatim>\<open>'mfcc'\<close> and 100 by 128 for
  \<^verbatim>\<open>'spectrogram'\<close>, and the pipeline does return one whenever non-empty audio was loaded
  and the extractor returned features.
\<close>

theorem pad_sequence_canonical:
  "(wf_ndarray features \<and> shape features = [r, c] \<longrightarrow>
      (\<exists>padded. pad_sequence AudioPreprocessor_init features = Inr padded
         \<and> shape padded = [100, c] \<and> wf_ndarray padded \<and> length (rows padded) = 100
         \<and> (r > 100 \<longrightarrow> rows padded = take 100 (rows features))
         \<and> (r \<le> 100 \<longrightarrow> rows padded = rows features @ replicate (100 - r) (replicate c 0))))
   \<and> (\<forall>encoding.
         preprocess_audio backend AudioPreprocessor_init audio_path feature_type = Inr encoding \<longrightarrow>
           (\<exists>audio extracted. audio \<noteq> []
              \<and> pad_sequence AudioPreprocessor_init extracted = Inr encoding
              \<and> (feature_type = ''mfcc'' \<and> extract_mfcc backend audio = Inr extracted \<or>
                  feature_type = ''spectrogram'' \<and>
                    extract_spectrogram backend audio = Some extracted)))
   \<and> (\<forall>encoding.
         librosa_shapes backend AudioPreprocessor_init \<and>
         preprocess_audio backend AudioPreprocessor_init audio_path feature_type = Inr encoding \<longrightarrow>
           wf_ndarray encoding \<and> length (rows encoding) = 100 \<and>
           (feature_type = ''mfcc'' \<and> shape encoding = [100, 13] \<or>
            feature_type = ''spectrogram'' \<and> shape encoding = [100, 128]))
   \<and> (\<forall>audio extracted.
         librosa_shapes backend AudioPreprocessor_init \<and>
         load_audio backend audio_path = Some audio \<and> audio \<noteq> [] \<and>
         (feature_type = ''mfcc'' \<and>
            extract_mfcc backend (remove_silence audio default_threshold) = Inr extracted \<or>
          feature_type = ''spectrogram'' \<and>
            extract_spectrogram backend (remove_silence audio default_threshold) = Some extracted) \<longrightarrow>
           (\<exists>encoding.
              preprocess_audio backend AudioPreprocessor_init audio_path feature_type = Inr encoding))"
proof -
  have 1: "wf_ndarray features \<and> shape features = [r, c] \<longrightarrow>
      (\<exists>padded. pad_sequence AudioPreprocessor_init features = Inr padded
         \<and> shape padded = [100, c] \<and> wf_ndarray padded \<and> length (rows padded) = 100
         \<and> (r > 100 \<longrightarrow> rows padded = take 100 (rows features))
         \<and> (r \<le> 100 \<longrightarrow> rows padded = rows features @ replicate (100 - r) (replicate c 0)))"
    using pad_sequence_rows [of features r c] by blast
  have 2: "\<forall>encoding.
         preprocess_audio backend AudioPreprocessor_init audio_path feature_type = Inr encoding \<longrightarrow>
           (\<exists>audio extracted. audio \<noteq> []
              \<and> pad_sequence AudioPreprocessor_init extracted = Inr encoding
              \<and> (feature_type = ''mfcc'' \<and> extract_mfcc backend audio = Inr extracted \<or>
                  feature_type = ''spectrogram'' \<and>
                    extract_spectrogram backend audio = Some extracted))"
    using preprocess_audio_padded [of backend AudioPreprocessor_init audio_path feature_type]
    by blast
  have 3: "\<forall>encoding.
         librosa_shapes backend AudioPreprocessor_init \<and>
         preprocess_audio backend AudioPreprocessor_init audio_path feature_type = Inr encoding \<longrightarrow>
           wf_ndarray encoding \<and> length (rows encoding) = 100 \<and>
           (feature_type = ''mfcc'' \<and> shape encoding = [100, 13] \<or>
            feature_type = ''spectrogram'' \<and> shape encoding = [100, 128])"
    using preprocess_audio_canonical [of backend audio_path feature_type] by blast
  have 4: "\<forall>audio extracted.
         librosa_shapes backend AudioPreprocessor_init \<and>
         load_audio backend audio_path = Some audio \<and> audio \<noteq> [] \<and>
         (feature_type = ''mfcc'' \<and>
            extract_mfcc backend (remove_silence audio default_threshold) = Inr extracted \<or>
          feature_type = ''spectrogram'' \<and>
            extract_spectrogram backend (remove_silence audio default_threshold) = Some extracted) \<longrightarrow>
           (\<exists>encoding.
              preprocess_audio backend AudioPreprocessor_init audio_path feature_type = Inr encoding)"
    using preprocess_audio_returns [of backend audio_path _ feature_type] by blast
  from 1 2 3 4 show ?thesis by (intro conjI)
qed

lemma librosa_shapes_sample_backend: "librosa_shapes sample_backend AudioPreprocessor_init"
  by (auto simp: librosa_shapes_def sample_backend_def AudioPreprocessor_init_def wf_ndarray_def)

lemma preprocess_sample_spectrogram:
  "preprocess_audio sample_backend AudioPreprocessor_init ''login.wav'' ''spectrogram''
     = Inr \<lparr>shape = [100, 128], data = replicate 256 (- 1) @ replicate 12544 0\<rparr>"
  by (simp add: preprocess_audio_def sample_backend_def remove_silence_def
      default_threshold_def pad_sequence_def AudioPreprocessor_init_def Let_def)

lemma preprocess_sample_mfcc:
  "preprocess_audio sample_backend AudioPreprocessor_init ''login.wav'' ''mfcc''
     = Inr \<lparr>shape = [100, 13], data = replicate 26 1 @ replicate 1274 0\<rparr>"
  by (simp add: preprocess_audio_def sample_backend_def remove_silence_def
      default_threshold_def pad_sequence_def AudioPreprocessor_init_def Let_def)

theorem pad_sequence_canonical_witness:
  "wf_ndarray \<lparr>shape = [2, 128], data = replicate 256 1\<rparr>
   \<and> pad_sequence AudioPreprocessor_init \<lparr>shape = [2, 128], data = replicate 256 1\<rparr>
       = Inr \<lparr>shape = [100, 128], data = replicate 256 1 @ replicate 12544 0\<rparr>
   \<and> wf_ndarray \<lparr>shape = [101, 13], data = replicate 1313 1\<rparr>
   \<and> pad_sequence AudioPreprocessor_init \<lparr>shape = [101, 13], data = replicate 1313 1\<rparr>
       = Inr \<lparr>shape = [100, 13], data = replicate 1300 1\<rparr>
   \<and> librosa_shapes sample_backend AudioPreprocessor_init
   \<and> preprocess_audio sample_backend AudioPreprocessor_init ''login.wav'' ''spectrogram''
       = Inr \<lparr>shape = [100, 128], data = replicate 256 (- 1) @ replicate 12544 0\<rparr>
   \<and> preprocess_audio sample_backend AudioPreprocessor_init ''login.wav'' ''mfcc''
       = Inr \<lparr>shape = [100, 13], data = replicate 26 1 @ replicate 1274 0\<rparr>
   \<and> wf_ndarray \<lparr>shape = [100, 128], data = replicate 256 (- 1) @ replicate 12544 0\<rparr>
   \<and> wf_ndarray \<lparr>shape = [100, 13], data = replicate 26 1 @ replicate 1274 (0::real)\<rparr>"
proof -
  have h1: "wf_ndarray \<lparr>shape = [2, 128], data = replicate 256 1\<rparr>"
    and h2: "wf_ndarray \<lparr>shape = [101, 13], data = replicate 1313 1\<rparr>"
    by (simp_all add: wf_ndarray_def)
  have p1: "pad_sequence AudioPreprocessor_init \<lparr>shape = [2, 128], data = replicate 256 1\<rparr>
       = Inr \<lparr>shape = [100, 128], data = replicate 256 1 @ replicate 12544 0\<rparr>"
    using h1 pad_sequence_canonical [of "\<lparr>shape = [2, 128], data = replicate 256 1\<rparr>" 2 128]
    by (simp add: pad_sequence_def AudioPreprocessor_init_def)
  have p2: "pad_sequence AudioPreprocessor_init \<lparr>shape = [101, 13], data = replicate 1313 1\<rparr>
       = Inr \<lparr>shape = [100, 13], data = replicate 1300 1\<rparr>"
    using h2 pad_sequence_canonical [of "\<lparr>shape = [101, 13], data = replicate 1313 1\<rparr>" 101 13]
    by (simp add: pad_sequence_def AudioPreprocessor_init_def)
  note l = librosa_shapes_sample_backend
  note s = preprocess_sample_spectrogram
  note m = preprocess_sample_mfcc
  from pad_sequence_canonical [of _ _ _ sample_backend "''login.wav''" "''spectrogram''"] l s
  have w1: "wf_ndarray \<lparr>shape = [100, 128], data = replicate 256 (- 1) @ replicate 12544 0\<rparr>"
    by blast
  from pad_sequence_canonical [of _ _ _ sample_backend "''login.wav''" "''mfcc''"] l m
  have w2: "wf_ndarray \<lparr>shape = [100, 13], data = replicate 26 1 @ replicate 1274 (0::real)\<rparr>"
    by blast
  from h1 h2 p1 p2 l s m w1 w2 show ?thesis by (intro conjI)
qed

subsection \<open>Silence removal\<close>

text \<open>
  Claim C5. With the default threshold 0.01, \<^verbatim>\<open>remove_silence\<close> returns exactly the
  samples whose absolute amplitude strictly exceeds 0.01, in their original order; when
  no sample exceeds the threshold it returns the input unchanged.
\<close>

theorem remove_silence_keeps_loud_samples:
  "remove_silence audio default_threshold =
     (if \<exists>x \<in> set audio. \<bar>x\<bar> > 1 / 100
      then filter (\<lambda>x. \<bar>x\<bar> > 1 / 100) audio
      else audio)"
  by (simp add: remove_silence_filter default_threshold_def)

theorem remove_silence_keeps_loud_samples_witness:
  "remove_silence [5 / 10, 5 / 1000, - 2 / 10, 1 / 100] default_threshold = [5 / 10, - 2 / 10]
   \<and> remove_silence [5 / 1000, 1 / 100] default_threshold = [5 / 1000, 1 / 100]"
  using remove_silence_keeps_loud_samples [of "[5 / 10, 5 / 1000, - 2 / 10, 1 / 100]"]
    remove_silence_keeps_loud_samples [of "[5 / 1000, 1 / 100]"]
  by simp

text \<open>
  Claim C10. On a non-empty sample sequence \<^verbatim>\<open>remove_silence\<close> returns a non-empty
  sequence, so \<^verbatim>\<open>preprocess_audio\<close> never leaves through its exit "No audio left after
  silence removal" when audio was loaded.
\<close>

theorem remove_silence_never_empties:
  assumes "audio \<noteq> []"
  shows "remove_silence audio default_threshold \<noteq> []
     \<and> (\<forall>backend self audio_path feature_type.
           load_audio backend audio_path = Some audio \<longrightarrow>
           preprocess_audio backend self audio_path feature_type
             \<noteq> Inl NoAudioLeftAfterSilenceRemoval)"
  using remove_silence_nonempty [OF assms] preprocess_never_no_audio by simp

theorem remove_silence_never_empties_witness:
  "[5 / 1000 :: real] \<noteq> []
   \<and> remove_silence [5 / 1000] default_threshold = [5 / 1000]
   \<and> preprocess_audio
       \<lparr>load_audio = (\<lambda>p. Some [5 / 1000]), extract_mfcc = (\<lambda>a. Inl ValueError),
        extract_spectrogram = (\<lambda>a. None)\<rparr>
       AudioPreprocessor_init ''login.wav'' ''spectrogram''
       = Inl FeatureExtractionReturnedNone"
proof -
  have h: "[5 / 1000 :: real] \<noteq> []" by simp
  show ?thesis
    using remove_silence_never_empties [OF h]
    by (simp add: remove_silence_def default_threshold_def preprocess_audio_def)
qed


section \<open>Open-set identification\<close>

subsection \<open>The loop\<close>

lemma student_scores_alt:
  "student_scores db features = map (score db features) (filter s_is_active (list_all_students db))"
  by (simp add: student_scores_def score_def)

lemma loop_similarity:
  "fst (snd (identify_loop db f ss (bm, bs, bst))) =
     fold max (map (score db f) (filter s_is_active ss)) bs"
proof (induction ss arbitrary: bm bs bst)
  case Nil
  then show ?case by simp
next
  case (Cons s ss)
  show ?case
  proof (cases "s_is_active s")
    case False
    then show ?thesis using Cons by simp
  next
    case True
    obtain m x where v: "verify_student_voice db (s_student_id s) f default_similarity_threshold = (m, x)"
      by (cases "verify_student_voice db (s_student_id s) f default_similarity_threshold")
    then have sc: "score db f s = x" by (simp add: score_def)
    show ?thesis
    proof (cases "x > bs")
      case True
      then have "max x bs = x" by simp
      with True \<open>s_is_active s\<close> v sc Cons [of "Some m" x "Some s"] show ?thesis by simp
    next
      case False
      then have "max x bs = bs" by simp
      with False \<open>s_is_active s\<close> v sc Cons [of bm bs bst] show ?thesis by simp
    qed
  qed
qed

lemma loop_student_None:
  "snd (snd (identify_loop db f ss (bm, bs, bst))) = None \<longleftrightarrow>
     bst = None \<and> (\<forall>x \<in> set (map (score db f) (filter s_is_active ss)). x \<le> bs)"
proof (induction ss arbitrary: bm bs bst)
  case Nil
  then show ?case by simp
next
  case (Cons s ss)
  show ?case
  proof (cases "s_is_active s")
    case False
    then show ?thesis using Cons by simp
  next
    case True
    obtain m x where v: "verify_student_voice db (s_student_id s) f default_similarity_threshold = (m, x)"
      by (cases "verify_student_voice db (s_student_id s) f default_similarity_threshold")
    then have sc: "score db f s = x" by (simp add: score_def)
    show ?thesis
    proof (cases "x > bs")
      case True
      with \<open>s_is_active s\<close> v sc Cons [of "Some m" x "Some s"] show ?thesis by auto
    next
      case False
      with \<open>s_is_active s\<close> v sc Cons [of bm bs bst] show ?thesis by auto
    qed
  qed
qed

lemma loop_student_Some:
  "snd (snd (identify_loop db f ss (bm, bs, bst))) = Some st \<Longrightarrow>
     bst = Some st \<or> (st \<in> set ss \<and> s_is_active st)"
proof (induction ss arbitrary: bm bs bst)
  case Nil
  then show ?case by simp
next
  case (Cons s ss)
  show ?case
  proof (cases "s_is_active s")
    case False
    then show ?thesis using Cons.prems Cons.IH [of bm bs bst] by auto
  next
    case True
    obtain m x where v: "verify_student_voice db (s_student_id s) f default_similarity_threshold = (m, x)"
      by (cases "verify_student_voice db (s_student_id s) f default_similarity_threshold")
    show ?thesis
    proof (cases "x > bs")
      case True
      with \<open>s_is_active s\<close> v Cons.prems Cons.IH [of "Some m" x "Some s"] show ?thesis by auto
    next
      case False
      with \<open>s_is_active s\<close> v Cons.prems Cons.IH [of bm bs bst] show ?thesis by auto
    qed
  qed
qed

text \<open>The loop, run from its initial state.\<close>

lemma loop_result:
  obtains bm st where
    "identify_loop db f (list_all_students db) (None, 0, None)
       = (bm, Max (insert 0 (set (student_scores db f))), st)"
    and "st = None \<longleftrightarrow> (\<forall>x \<in> set (student_scores db f). x \<le> 0)"
    and "\<And>s. st = Some s \<Longrightarrow> s \<in> set (students db) \<and> s_is_active s"
proof -
  obtain bm bs st where r: "identify_loop db f (list_all_students db) (None, 0, None) = (bm, bs, st)"
    by (cases "identify_loop db f (list_all_students db) (None, 0, None)")
  have "bs = fold max (student_scores db f) 0"
    using loop_similarity [of db f "list_all_students db" None 0 None] r
    by (simp add: student_scores_alt)
  also have "\<dots> = Max (insert 0 (set (student_scores db f)))"
    using Max.set_eq_fold [of 0 "student_scores db f"] by simp
  finally have 1: "bs = Max (insert 0 (set (student_scores db f)))" .
  have 2: "st = None \<longleftrightarrow> (\<forall>x \<in> set (student_scores db f). x \<le> 0)"
    using loop_student_None [of db f "list_all_students db" None 0 None] r
    by (simp add: student_scores_alt)
  have 3: "s \<in> set (students db) \<and> s_is_active s" if "st = Some s" for s
    using loop_student_Some [of db f "list_all_students db" None 0 None s] r that
    by (simp add: list_all_students_def)
  from 1 2 3 r that show thesis by blast
qed

lemma Max_insert0:
  assumes "xs \<noteq> []"
  shows "Max (insert (0::real) (set xs)) = max 0 (Max (set xs))"
  using assms by simp

lemma list_all_students_Nil [simp]: "list_all_students db = [] \<longleftrightarrow> students db = []"
  unfolding list_all_students_def
  by (metis length_0_conv length_rev length_sort)

lemma student_scores_Nil_students: "students db = [] \<Longrightarrow> student_scores db f = []"
  by (simp add: student_scores_def list_all_students_def)

subsection \<open>The desktop and command-line front ends\<close>

lemma time_not_bound:
  "global_name app_globals ''time'' = Inl NameError"
  "global_name cli_app_globals ''time'' = Inl NameError"
  by (simp_all add: global_name_def app_globals_def cli_app_globals_def)

lemma time_bound_web: "global_name web_app_globals ''time'' = Inr ()"
  by (simp add: global_name_def web_app_globals_def)

text \<open>
  Neither module binds \<^verbatim>\<open>time\<close>. Whatever the recording and the database, both functions
  leave through their \<^verbatim>\<open>except\<close> handler: nothing is compared and nothing is logged.
\<close>

lemma identify_and_login_NameError:
  "identify_and_login db features_opt = (AuthenticationError NameError, db)"
  by (simp add: identify_and_login_def time_not_bound)

lemma voice_only_login_NameError:
  "voice_only_login db features_opt = (AuthenticationError NameError, db)"
  by (simp add: voice_only_login_def time_not_bound)

subsection \<open>Decision tiers\<close>

lemma tiers_web:
  "decision_of (fst (api_voice_login db (Some f))) =
     (if student_scores db f = [] then Reject
      else if top_similarity db f \<ge> 65 / 100 then Accept
      else Reject)"
proof (cases "students db = []")
  case True
  then show ?thesis
    by (simp add: api_voice_login_def student_scores_Nil_students)
next
  case False
  obtain bm st where r: "identify_loop db f (list_all_students db) (None, 0, None)
       = (bm, Max (insert 0 (set (student_scores db f))), st)"
    and n: "st = None \<longleftrightarrow> (\<forall>x \<in> set (student_scores db f). x \<le> 0)"
    by (rule loop_result)
  show ?thesis
  proof (cases "student_scores db f = []")
    case True
    then have "st = None" using n by simp
    with False r True show ?thesis by (simp add: api_voice_login_def)
  next
    case ne: False
    have top: "Max (insert 0 (set (student_scores db f))) = max 0 (top_similarity db f)"
      using ne by (simp add: top_similarity_def)
    have n': "st = None \<longleftrightarrow> top_similarity db f \<le> 0"
      using n ne by (simp add: top_similarity_def)
    show ?thesis
    proof (cases st)
      case None
      with False r ne n' top show ?thesis by (simp add: api_voice_login_def)
    next
      case (Some s)
      with n' have "0 < top_similarity db f" by simp
      then have "max 0 (top_similarity db f) = top_similarity db f" by simp
      with Some False r ne top show ?thesis by (simp add: api_voice_login_def)
    qed
  qed
qed

lemma api_voice_login_None: "api_voice_login db None = (FailedToProcessAudio, db)"
  by (simp add: api_voice_login_def)

lemma api_voice_login_no_middle_tier:
  "decision_of (fst (api_voice_login db features_opt)) \<noteq> PossibleMatch"
proof (cases features_opt)
  case None
  then show ?thesis by (simp add: api_voice_login_None)
next
  case (Some f)
  then show ?thesis by (simp add: tiers_web)
qed

text \<open>
  Claim C3, as amended. For every identification attempt through the web endpoint
  (\<^verbatim>\<open>api_voice_login\<close>), with s the top similarity of the probe over the active students:
  the decision is Accept when s is at least 0.65, and Reject when s is below 0.65, when
  there is no student to compare with, or when no features could be extracted. There is
  one threshold and no PossibleMatch tier.
\<close>

theorem open_set_decision_tiers:
  "decision_of (fst (api_voice_login db (Some features))) =
     (if student_scores db features = [] then Reject
      else if top_similarity db features \<ge> 65 / 100 then Accept
      else Reject)
   \<and> (students db = [] \<longrightarrow> student_scores db features = [])
   \<and> decision_of (fst (api_voice_login db None)) = Reject
   \<and> decision_of (fst (api_voice_login db features_opt)) \<noteq> PossibleMatch"
  using tiers_web [of db features] student_scores_Nil_students [of db features]
    api_voice_login_no_middle_tier [of db features_opt]
  by (simp add: api_voice_login_None)

lemma verify_one_sample:
  "verify_student_voice db_one_sample ''S1'' (sample_encoding 1 0) default_similarity_threshold
     = (False, 20 / 29)"
  by (simp add: verify_student_voice_def get_student_embeddings_def db_one_sample_def
      sample_row_def similarity_sample_encoding sqrt_841 default_similarity_threshold_def)

lemma student_scores_one_sample:
  "student_scores db_one_sample (sample_encoding 1 0) = [20 / 29]"
  using verify_one_sample
  by (simp add: student_scores_def list_all_students_def db_one_sample_def sample_student_def)

lemma top_similarity_one_sample: "top_similarity db_one_sample (sample_encoding 1 0) = 20 / 29"
  by (simp add: top_similarity_def student_scores_one_sample)

lemma sample_student_simps:
  "s_student_id (sample_student i n d) = i" "s_is_active (sample_student i n d)"
  by (simp_all add: sample_student_def)

lemma list_all_students_one_sample:
  "list_all_students db_one_sample = [sample_student ''S1'' ''Ada'' 1]"
  by (simp add: list_all_students_def db_one_sample_def)

text \<open>
  The claim as written fails on the web endpoint: with top similarity 20/29, inside the
  band from 0.5 to 0.75, it accepts.
\<close>

theorem web_login_accepts_in_middle_band:
  "top_similarity db_one_sample (sample_encoding 1 0) = 20 / 29
   \<and> (5 / 10 :: real) \<le> 20 / 29 \<and> (20 / 29 :: real) < 75 / 100
   \<and> decision_of (fst (api_voice_login db_one_sample (Some (sample_encoding 1 0)))) = Accept"
  by (simp add: top_similarity_one_sample api_voice_login_def list_all_students_one_sample
      sample_student_simps verify_one_sample)

theorem open_set_decision_tiers_witness:
  "student_scores db_one_sample (sample_encoding 1 0) = [20 / 29]
   \<and> decision_of (fst (api_voice_login db_one_sample (Some (sample_encoding 1 0)))) = Accept
   \<and> students db_empty = []
   \<and> decision_of (fst (api_voice_login db_empty (Some (sample_encoding 1 0)))) = Reject"
proof -
  have e: "students db_empty = []" by (simp add: db_empty_def)
  show ?thesis
    using open_set_decision_tiers [of db_one_sample "sample_encoding 1 0"]
      open_set_decision_tiers [of db_empty "sample_encoding 1 0"] e
    by (simp add: student_scores_one_sample top_similarity_one_sample)
qed

subsection \<open>Logged login attempts\<close>

lemma api_voice_login_logs:
  assumes "students db \<noteq> []"
  shows "\<exists>outcome db'. api_voice_login db (Some features) = (outcome, db')
          \<and> outcome \<noteq> FailedToProcessAudio \<and> outcome \<noteq> NoRegisteredStudents
          \<and> login_attempts db' = login_attempts db @
              [\<lparr>la_student_id = reported_identity outcome,
                la_success = (decision_of outcome = Accept),
                la_confidence_score = reported_score outcome, la_ip_address = None\<rparr>]
          \<and> students db' = students db \<and> voice_embeddings db' = voice_embeddings db
          \<and> reported_score outcome = Max (insert 0 (set (student_scores db features)))
          \<and> (reported_identity outcome = ''UNKNOWN'' \<or>
              (\<exists>s \<in> set (students db). s_is_active s \<and> s_student_id s = reported_identity outcome))"
proof -
  let ?B = "Max (insert 0 (set (student_scores db features)))"
  obtain bm st where r: "identify_loop db features (list_all_students db) (None, 0, None)
       = (bm, ?B, st)"
    and n: "st = None \<longleftrightarrow> (\<forall>x \<in> set (student_scores db features). x \<le> 0)"
    and m: "\<And>s. st = Some s \<Longrightarrow> s \<in> set (students db) \<and> s_is_active s"
    by (rule loop_result [of db features]) blast
  show ?thesis
  proof (cases st)
    case None
    with assms r show ?thesis
      by (simp add: api_voice_login_def log_login_attempt_def)
  next
    case (Some s)
    then have s: "s \<in> set (students db)" "s_is_active s" using m by simp_all
    show ?thesis
    proof (cases "?B \<ge> 65 / 100")
      case True
      with assms r Some s show ?thesis
        by (auto simp: api_voice_login_def log_login_attempt_def)
    next
      case False
      with assms r Some s show ?thesis
        by (auto simp: api_voice_login_def log_login_attempt_def)
    qed
  qed
qed

text \<open>
  Claim C9, as amended. An identification attempt through the web endpoint
  (\<^verbatim>\<open>api_voice_login\<close>) that reaches the comparison (features were extracted and at least
  one student is registered) appends exactly one row to \<^verbatim>\<open>login_attempts\<close> and changes
  nothing else: the row carries the matched student's id, or \<^verbatim>\<open>"UNKNOWN"\<close> when no
  student matched, the success flag (true exactly for Accept) and the best similarity,
  which is the larger of 0 and the top similarity. An attempt that ends before the
  comparison, because no features could be extracted or because no student is
  registered, is rejected and logs nothing.
\<close>

theorem login_attempt_logged:
  "api_voice_login db None = (FailedToProcessAudio, db)
   \<and> (students db = [] \<longrightarrow> api_voice_login db (Some features) = (NoRegisteredStudents, db))
   \<and> (students db \<noteq> [] \<longrightarrow>
       (\<exists>outcome db'. api_voice_login db (Some features) = (outcome, db')
          \<and> outcome \<noteq> FailedToProcessAudio \<and> outcome \<noteq> NoRegisteredStudents
          \<and> login_attempts db' = login_attempts db @
              [\<lparr>la_student_id = reported_identity outcome,
                la_success = (decision_of outcome = Accept),
                la_confidence_score = reported_score outcome, la_ip_address = None\<rparr>]
          \<and> students db' = students db \<and> voice_embeddings db' = voice_embeddings db
          \<and> reported_score outcome = Max (insert 0 (set (student_scores db features)))
          \<and> (reported_identity outcome = ''UNKNOWN'' \<or>
              (\<exists>s \<in> set (students db). s_is_active s \<and> s_student_id s = reported_identity outcome))))"
proof -
  have "students db = [] \<longrightarrow>
      api_voice_login db (Some features) = (NoRegisteredStudents, db)"
    by (simp add: api_voice_login_def)
  then show ?thesis
    using api_voice_login_logs [of db features] api_voice_login_None [of db] by blast
qed

text \<open>
  The claim as written, one logged event for every attempt, fails when no student is
  registered: the web endpoint rejects the attempt and the table stays empty.
\<close>

theorem no_login_attempt_logged_without_students:
  "decision_of (fst (api_voice_login db_empty (Some (sample_encoding 1 0)))) = Reject
   \<and> login_attempts db_empty = []
   \<and> login_attempts (snd (api_voice_login db_empty (Some (sample_encoding 1 0)))) = []"
  by (simp add: api_voice_login_def list_all_students_def db_empty_def)

theorem login_attempt_logged_witness:
  "students db_one_sample \<noteq> []
   \<and> api_voice_login db_one_sample (Some (sample_encoding 1 0)) =
       (WelcomeBack (sample_student ''S1'' ''Ada'' 1) (20 / 29),
        log_login_attempt db_one_sample ''S1'' True (20 / 29) None)
   \<and> login_attempts (snd (api_voice_login db_one_sample (Some (sample_encoding 1 0)))) =
       [\<lparr>la_student_id = ''S1'', la_success = True, la_confidence_score = 20 / 29,
         la_ip_address = None\<rparr>]
   \<and> students db_empty = []
   \<and> api_voice_login db_empty (Some (sample_encoding 1 0)) = (NoRegisteredStudents, db_empty)"
proof -
  have h: "students db_one_sample \<noteq> []" by (simp add: db_one_sample_def)
  have e: "students db_empty = []" by (simp add: db_empty_def)
  have l: "login_attempts db_one_sample = []" by (simp add: db_one_sample_def)
  have 2: "api_voice_login db_one_sample (Some (sample_encoding 1 0)) =
       (WelcomeBack (sample_student ''S1'' ''Ada'' 1) (20 / 29),
        log_login_attempt db_one_sample ''S1'' True (20 / 29) None)"
    by (simp add: api_voice_login_def list_all_students_one_sample
        sample_student_simps verify_one_sample)
  then have o: "fst (api_voice_login db_one_sample (Some (sample_encoding 1 0))) =
       WelcomeBack (sample_student ''S1'' ''Ada'' 1) (20 / 29)"
    by simp
  from login_attempt_logged [of db_one_sample "sample_encoding 1 0"] h
  obtain outcome db' where r: "api_voice_login db_one_sample (Some (sample_encoding 1 0)) = (outcome, db')"
    and la: "login_attempts db' = login_attempts db_one_sample @
              [\<lparr>la_student_id = reported_identity outcome,
                la_success = (decision_of outcome = Accept),
                la_confidence_score = reported_score outcome, la_ip_address = None\<rparr>]"
    by blast
  from r o have out: "outcome = WelcomeBack (sample_student ''S1'' ''Ada'' 1) (20 / 29)"
    by simp
  have 1: "login_attempts (snd (api_voice_login db_one_sample (Some (sample_encoding 1 0)))) =
       [\<lparr>la_student_id = ''S1'', la_success = True, la_confidence_score = 20 / 29,
         la_ip_address = None\<rparr>]"
    using r la l out by (simp add: sample_student_simps)
  have 3: "api_voice_login db_empty (Some (sample_encoding 1 0)) = (NoRegisteredStudents, db_empty)"
    using login_attempt_logged [of db_empty "sample_encoding 1 0"] e by blast
  from h 1 2 3 e show ?thesis by blast
qed

section \<open>Classifier training\<close>

lemma keys_add_row:
  "map fst (add_row row d) =
     (if fst row \<in> set (map fst d) then map fst d else map fst d @ [fst row])"
proof (induction d)
  case Nil
  then show ?case by (cases row) simp
next
  case (Cons kv d)
  then show ?case by (cases row; cases kv) auto
qed

lemma keys_fold_add_row:
  "set (map fst (fold add_row rs d)) = set (map fst d) \<union> fst ` set rs"
proof (induction rs arbitrary: d)
  case Nil
  then show ?case by simp
next
  case (Cons row rs)
  show ?case
    unfolding fold_simps Cons.IH keys_add_row by auto
qed

lemma distinct_add_row: "distinct (map fst d) \<Longrightarrow> distinct (map fst (add_row row d))"
  by (simp add: keys_add_row)

lemma distinct_fold_add_row:
  "distinct (map fst d) \<Longrightarrow> distinct (map fst (fold add_row rs d))"
  by (induction rs arbitrary: d) (simp_all add: distinct_add_row)

lemma keys_join_rows: "fst ` set (join_rows db) = enrolled_identities db"
  by (force simp: join_rows_def enrolled_identities_def image_iff)

lemma finite_enrolled_identities: "finite (enrolled_identities db)"
  using keys_join_rows [of db, symmetric] by simp

lemma length_get_all_student_embeddings:
  "length (get_all_student_embeddings db) = card (enrolled_identities db)"
proof -
  let ?d = "get_all_student_embeddings db"
  have "distinct (map fst ?d)"
    unfolding get_all_student_embeddings_def by (rule distinct_fold_add_row) simp
  then have "card (set (map fst ?d)) = length (map fst ?d)"
    by (rule distinct_card)
  moreover have "set (map fst ?d) = enrolled_identities db"
    unfolding get_all_student_embeddings_def keys_fold_add_row keys_join_rows by simp
  ultimately show ?thesis by simp
qed

text \<open>The samples collected are encodings of the joined rows.\<close>

lemma values_add_row:
  "(\<Union>(k, n, es) \<in> set (add_row row d). set es) =
     (\<Union>(k, n, es) \<in> set d. set es) \<union> {snd (snd row)}"
proof (induction d)
  case Nil
  then show ?case by (cases row) simp
next
  case (Cons kv d)
  then show ?case by (cases row; cases kv) auto
qed

lemma values_fold_add_row:
  "(\<Union>(k, n, es) \<in> set (fold add_row rs d). set es) =
     (\<Union>(k, n, es) \<in> set d. set es) \<union> (snd \<circ> snd) ` set rs"
proof (induction rs arbitrary: d)
  case Nil
  then show ?case by simp
next
  case (Cons row rs)
  show ?case
    unfolding fold_simps Cons.IH values_add_row by auto
qed

lemma samples_collect:
  "fst ` set (collect_samples i d) = (\<Union>(k, n, es) \<in> set d. set es)"
  by (induction i d rule: collect_samples.induct) (auto simp: image_Un image_image)

lemma samples_in_table:
  "fst ` set (collect_samples 0 (get_all_student_embeddings db))
     \<subseteq> ve_embedding_data ` set (voice_embeddings db)"
  unfolding samples_collect get_all_student_embeddings_def values_fold_add_row
  by (auto simp: join_rows_def)

lemma nonempty_entries_add_row:
  "(\<forall>(k, n, es) \<in> set d. es \<noteq> []) \<Longrightarrow> (\<forall>(k, n, es) \<in> set (add_row row d). es \<noteq> [])"
proof (induction d)
  case Nil
  then show ?case by (cases row) simp
next
  case (Cons kv d)
  then show ?case by (cases row; cases kv) auto
qed

lemma nonempty_entries_fold:
  "(\<forall>(k, n, es) \<in> set d. es \<noteq> []) \<Longrightarrow> (\<forall>(k, n, es) \<in> set (fold add_row rs d). es \<noteq> [])"
proof (induction rs arbitrary: d)
  case Nil
  then show ?case by simp
next
  case (Cons row rs)
  show ?case
    unfolding fold_simps
    by (rule Cons.IH) (rule nonempty_entries_add_row [OF Cons.prems])
qed

lemma collect_samples_nonempty:
  assumes "d \<noteq> []" and "\<forall>(k, n, es) \<in> set d. es \<noteq> []"
  shows "collect_samples i d \<noteq> []"
  using assms by (cases d) auto

lemma train_model_guard:
  "train_model db = InsufficientTrainingData \<longleftrightarrow> card (enrolled_identities db) < 2"
  by (auto simp: train_model_def Let_def length_get_all_student_embeddings
      split: list.splits)

lemma train_model_classes:
  "train_model db = TrainingStarted ts \<Longrightarrow> num_classes ts = card (enrolled_identities db)"
  by (auto simp: train_model_def Let_def length_get_all_student_embeddings
      split: list.splits if_splits)

lemma train_model_uniform:
  assumes "card (enrolled_identities db) \<ge> 2" and "uniform_encodings db r c"
  shows "\<exists>ts. train_model db = TrainingStarted ts \<and> input_shape ts = [r, c, 1]"
proof -
  let ?d = "get_all_student_embeddings db"
  let ?xs = "map fst (collect_samples 0 ?d)"
  have len: "\<not> length ?d < 2"
    using assms(1) by (simp add: length_get_all_student_embeddings)
  then have "?d \<noteq> []" by auto
  moreover have "\<forall>(k, n, es) \<in> set ?d. es \<noteq> []"
    unfolding get_all_student_embeddings_def by (rule nonempty_entries_fold) simp
  ultimately have "collect_samples 0 ?d \<noteq> []" by (rule collect_samples_nonempty)
  then obtain x rest where xs: "?xs = x # rest" by (cases ?xs) auto
  have "\<forall>e \<in> set ?xs. shape e = [r, c]"
    using samples_in_table [of db] assms(2)
    by (auto simp: uniform_encodings_def list_all_iff)
  with xs have "shape x = [r, c]" "list_all (\<lambda>e. shape e = [r, c]) rest"
    by (simp_all add: list_all_iff)
  with len xs show ?thesis
    by (simp add: train_model_def Let_def)
qed

text \<open>
  Claim C8. Training stops at its guard, with nothing built or trained, exactly when
  fewer than two identities (active students with at least one stored sample) exist.
  With two or more the guard is passed: the number of classes is the number of those
  identities, and when the stored encodings all have one two-dimensional shape the
  network is constructed and fitted on them.
\<close>

theorem train_model_needs_two_identities:
  "(card (enrolled_identities db) < 2 \<longrightarrow> train_model db = InsufficientTrainingData)
   \<and> (card (enrolled_identities db) \<ge> 2 \<longrightarrow>
        train_model db \<noteq> InsufficientTrainingData
        \<and> (\<forall>ts. train_model db = TrainingStarted ts \<longrightarrow>
              num_classes ts = card (enrolled_identities db))
        \<and> (\<forall>r c. uniform_encodings db r c \<longrightarrow>
              (\<exists>ts. train_model db = TrainingStarted ts \<and> input_shape ts = [r, c, 1])))"
  using train_model_guard [of db] train_model_classes [of db] train_model_uniform [of db]
  by (auto simp: not_less)

lemma enrolled_three_samples: "enrolled_identities db_three_samples = {''S1''}"
  by (auto simp: enrolled_identities_def db_three_samples_def sample_student_def sample_row_def)

lemma enrolled_two_students: "enrolled_identities db_two_students = {''S1'', ''S2''}"
  by (auto simp: enrolled_identities_def db_two_students_def sample_student_def sample_row_def)

theorem train_model_needs_two_identities_witness:
  "card (enrolled_identities db_three_samples) = 1
   \<and> train_model db_three_samples = InsufficientTrainingData
   \<and> card (enrolled_identities db_two_students) = 2
   \<and> uniform_encodings db_two_students 100 128
   \<and> train_model db_two_students =
       TrainingStarted \<lparr>X_train = [sample_encoding 3 4, sample_encoding 24 7],
                        y_train = [0, 1], input_shape = [100, 128, 1], num_classes = 2\<rparr>"
proof -
  have c1: "card (enrolled_identities db_three_samples) = 1"
    by (simp add: enrolled_three_samples)
  have c2: "card (enrolled_identities db_two_students) = 2"
    by (simp add: enrolled_two_students)
  have u: "uniform_encodings db_two_students 100 128"
    by (simp add: uniform_encodings_def db_two_students_def sample_row_def sample_encoding_def)
  have "card (enrolled_identities db_three_samples) < 2" using c1 by simp
  with train_model_needs_two_identities [of db_three_samples]
  have i: "train_model db_three_samples = InsufficientTrainingData" by blast
  have "2 \<le> card (enrolled_identities db_two_students)" using c2 by simp
  with train_model_needs_two_identities [of db_two_students] u
  obtain ts where ts: "train_model db_two_students = TrainingStarted ts"
    and "input_shape ts = [100, 128, 1]" and "num_classes ts = card (enrolled_identities db_two_students)"
    by blast
  have x: "train_model db_two_students =
       TrainingStarted \<lparr>X_train = [sample_encoding 3 4, sample_encoding 24 7],
                        y_train = [0, 1], input_shape = [100, 128, 1], num_classes = 2\<rparr>"
    by (simp add: train_model_def get_all_student_embeddings_def join_rows_def
        db_two_students_def sample_student_def sample_row_def sample_encoding_def Let_def)
  from c1 i c2 u x ts show ?thesis by blast
qed


end
